theory Spec2Isabelle
  imports Main
begin

section \<open>Data model\<close>

text \<open>
  Go strings are modelled as \<open>string\<close>; an error value is its message, and a nil error
  is \<open>None\<close> of \<open>error option\<close>.
\<close>

type_synonym error = string

text \<open>
  \<open>cloudflare.OriginRequestConfig\<close>: the two options the provider sets (pointers to
  bool, nil being \<open>None\<close>); the provider reads or writes no other option.
\<close>

record OriginRequestConfig =
  NoTLSVerify :: "bool option"
  Http2Origin :: "bool option"

text \<open>\<open>cloudflare.UnvalidatedIngressRule\<close>; \<open>OriginRequest\<close> is a pointer.\<close>

record UnvalidatedIngressRule =
  Hostname :: string
  Path :: string
  Service :: string
  OriginRequest :: "OriginRequestConfig option"

text \<open>The zero value of the struct, which Go yields for a key missing from a map.\<close>

definition zeroRule :: UnvalidatedIngressRule where
  "zeroRule = \<lparr>Hostname = [], Path = [], Service = [], OriginRequest = None\<rparr>"

section \<open>OrderedMap (provider/cloudflaretunnel/util/util.go)\<close>

record OrderedMap =
  data :: "string \<rightharpoonup> UnvalidatedIngressRule"
  keys :: "string list"

text \<open>
  \<open>NewOrderedMap\<close> allocates with the capacity \<open>cap\<close>, which has no other effect. In
  Go \<open>make\<close> panics for a negative capacity; the provider passes a length, and the
  model is that of the calls with \<open>cap \<ge> 0\<close>.
\<close>

definition NewOrderedMap :: "int \<Rightarrow> OrderedMap" where
  "NewOrderedMap cap = \<lparr>data = Map.empty, keys = []\<rparr>"

text \<open>
  The loop \<^verbatim>\<open>for i, v := range n.keys { if v == h { n.keys = append(n.keys[:i], n.keys[i+1:]...); break } }\<close>:
  \<open>ks\<close> is the whole slice, \<open>i\<close> the index reached and the last argument what is
  left to range over.
\<close>

fun removeKeyLoop :: "string \<Rightarrow> string list \<Rightarrow> nat \<Rightarrow> string list \<Rightarrow> string list" where
  "removeKeyLoop h ks i [] = ks"
| "removeKeyLoop h ks i (v # vs) =
     (if v = h then take i ks @ drop (Suc i) ks else removeKeyLoop h ks (Suc i) vs)"

definition removeKey :: "string \<Rightarrow> string list \<Rightarrow> string list" where
  "removeKey h ks = removeKeyLoop h ks 0 ks"

definition Add :: "OrderedMap \<Rightarrow> UnvalidatedIngressRule \<Rightarrow> OrderedMap" where
  "Add n s =
     (case data n (Hostname s) of
        None \<Rightarrow> \<lparr>data = (data n)(Hostname s \<mapsto> s), keys = keys n @ [Hostname s]\<rparr>
      | Some _ \<Rightarrow>
          \<lparr>data = (data n)(Hostname s \<mapsto> s),
           keys = removeKey (Hostname s) (keys n) @ [Hostname s]\<rparr>)"

definition Update :: "OrderedMap \<Rightarrow> UnvalidatedIngressRule \<Rightarrow> OrderedMap" where
  "Update n s =
     (case data n (Hostname s) of
        Some _ \<Rightarrow> \<lparr>data = (data n)(Hostname s \<mapsto> s), keys = keys n\<rparr>
      | None \<Rightarrow> \<lparr>data = (data n)(Hostname s \<mapsto> s), keys = keys n @ [Hostname s]\<rparr>)"

definition Remove :: "OrderedMap \<Rightarrow> UnvalidatedIngressRule \<Rightarrow> OrderedMap" where
  "Remove n s =
     (case data n (Hostname s) of
        Some _ \<Rightarrow>
          \<lparr>data = (data n)(Hostname s := None), keys = removeKey (Hostname s) (keys n)\<rparr>
      | None \<Rightarrow> n)"

text \<open>\<^verbatim>\<open>n.data[v]\<close> on a key that is not stored is the zero rule.\<close>

definition lookupRule :: "(string \<rightharpoonup> UnvalidatedIngressRule) \<Rightarrow> string \<Rightarrow> UnvalidatedIngressRule" where
  "lookupRule d k = (case d k of None \<Rightarrow> zeroRule | Some v \<Rightarrow> v)"

definition Get :: "OrderedMap \<Rightarrow> UnvalidatedIngressRule list" where
  "Get n = map (lookupRule (data n)) (keys n)"

definition Len :: "OrderedMap \<Rightarrow> int" where
  "Len n = int (length (keys n))"

text \<open>
  What the specification says \<open>Get\<close> returns after a sequence of \<open>Add\<close> calls: a rule
  of the sequence is enumerated iff no later call adds its hostname again, and the
  enumerated rules keep the order of their calls.
\<close>

fun lastAdds :: "UnvalidatedIngressRule list \<Rightarrow> UnvalidatedIngressRule list" where
  "lastAdds [] = []"
| "lastAdds (r # rs) =
     (if Hostname r \<in> set (map Hostname rs) then lastAdds rs else r # lastAdds rs)"

text \<open>
  The representation invariant of the container: the order holds exactly the stored keys,
  each once, and a rule is stored under its own hostname.
\<close>

definition omInv :: "OrderedMap \<Rightarrow> bool" where
  "omInv n \<longleftrightarrow>
     distinct (keys n) \<and> set (keys n) = dom (data n) \<and>
     (\<forall>k v. data n k = Some v \<longrightarrow> Hostname v = k)"

section \<open>Endpoints and changes\<close>

text \<open>
  \<open>endpoint.Endpoint\<close> and \<open>plan.Changes\<close> as the providers read them: the name, the
  targets, the record type and the TTL of an endpoint, and the four endpoint lists of a
  change set. The lists hold pointers, which the providers follow without a test; the
  model takes them as set.
\<close>

record Endpoint =
  DNSName :: string
  Targets :: "string list"
  RecordType :: string
  RecordTTL :: int

record Changes =
  Create :: "Endpoint list"
  UpdateOld :: "Endpoint list"
  UpdateNew :: "Endpoint list"
  Delete :: "Endpoint list"

definition RecordTypeA :: string where
  "RecordTypeA = ''A''"

definition RecordTypeCNAME :: string where
  "RecordTypeCNAME = ''CNAME''"

section \<open>Cloudflare Tunnel provider (provider/cloudflaretunnel/cloudflaretunnel.go)\<close>

subsection \<open>Values exchanged with the Cloudflare API\<close>

record Zone =
  zone_ID :: string
  zone_Name :: string

record DNSRecord =
  rec_ID :: string
  rec_Name :: string
  rec_Type :: string
  rec_Content :: string
  rec_ZoneID :: string

record ResultInfo =
  Page :: int
  PerPage :: int
  TotalPages :: int
  Count :: int
  Total :: int

record TunnelConfiguration =
  Ingress :: "UnvalidatedIngressRule list"
  WarpRouting :: "bool option"
  ConfigOriginRequest :: OriginRequestConfig

record TunnelConfigurationParams =
  TunnelID :: string
  Config :: TunnelConfiguration

record CreateDNSRecordParams =
  cp_Name :: string
  cp_TTL :: int
  cp_Proxied :: "bool option"
  cp_Type :: string
  cp_Content :: string
  cp_ZoneID :: string

record UpdateDNSRecordParams =
  up_ID :: string
  up_Name :: string
  up_TTL :: int
  up_Proxied :: "bool option"
  up_Type :: string
  up_Content :: string

text \<open>
  The local structs \<open>dnsUpdateParam\<close> (\<open>ZoneID\<close>, \<open>cfup\<close>) and \<open>dnsDeleteParam\<close>
  (\<open>ZoneID\<close>, \<open>recordID\<close>) of \<open>ApplyChanges\<close> are pairs.
\<close>

type_synonym dnsUpdateParam = "string \<times> UpdateDNSRecordParams"
type_synonym dnsDeleteParam = "string \<times> string"

subsection \<open>The API client and the state of a run\<close>

text \<open>
  A call of a method of \<open>CloudFlareAPIClient\<close>, with the account or zone identifier and
  the parameters it is given. Of \<open>cloudflare.ListDNSRecordsParams\<close> the provider sets
  the \<open>ResultInfo\<close> only, which stands for the parameters of a record listing.
\<close>

datatype call =
    ZoneDetails_call string
  | ListZonesContext_call
  | GetTunnelConfiguration_call string string
  | UpdateTunnelConfiguration_call string TunnelConfigurationParams
  | ListDNSRecords_call string ResultInfo
  | CreateDNSRecord_call string CreateDNSRecordParams
  | UpdateDNSRecord_call string UpdateDNSRecordParams
  | DeleteDNSRecord_call string string

text \<open>
  The client is an interface whose implementation is outside the program. Each method is
  a function of the calls made so far and of the arguments of the call, so that an answer
  may depend on everything the program did before; a method that returns a value and an
  error returns a sum (\<open>Inl\<close> the error), a method whose value the program drops returns
  the error only.
\<close>

record CloudFlareAPIClient =
  ZoneDetails :: "call list \<Rightarrow> string \<Rightarrow> error + Zone"
  ListZonesContext :: "call list \<Rightarrow> error + Zone list"
  GetTunnelConfiguration :: "call list \<Rightarrow> string \<Rightarrow> string \<Rightarrow> error + TunnelConfiguration"
  UpdateTunnelConfiguration :: "call list \<Rightarrow> string \<Rightarrow> TunnelConfigurationParams \<Rightarrow> error option"
  ListDNSRecords :: "call list \<Rightarrow> string \<Rightarrow> ResultInfo \<Rightarrow> error + DNSRecord list \<times> ResultInfo"
  CreateDNSRecord :: "call list \<Rightarrow> string \<Rightarrow> CreateDNSRecordParams \<Rightarrow> error option"
  UpdateDNSRecord :: "call list \<Rightarrow> string \<Rightarrow> UpdateDNSRecordParams \<Rightarrow> error option"
  DeleteDNSRecord :: "call list \<Rightarrow> string \<Rightarrow> string \<Rightarrow> error option"

text \<open>\<open>provider.ZoneIDName\<close> is a Go map from zone id to zone name.\<close>

type_synonym ZoneIDName = "string \<rightharpoonup> string"

text \<open>
  Modelled from the spec: \<open>provider.ZoneIDName.Add\<close> is not among the sources; a zone
  listing refreshes the mapping between zone names and zone ids, so adding a zone stores
  its name under its id.
\<close>

definition zoneAdd :: "ZoneIDName \<Rightarrow> string \<Rightarrow> string \<Rightarrow> ZoneIDName" where
  "zoneAdd z zoneID zoneName = z(zoneID \<mapsto> zoneName)"

section \<open>Values exchanged with the OCI DNS API\<close>

text \<open>
  \<open>dns.ZoneSummary\<close> and \<open>dns.RecordOperation\<close> as the provider uses them. Their fields
  are pointers that the provider dereferences without a test; the model takes them as set.
  Of the operations of \<open>dns.RecordOperationOperationEnum\<close> the provider uses two.
\<close>

record ZoneSummary =
  zs_Id :: string
  zs_Name :: string

datatype RecordOperationOperation = RecordOperationOperationAdd | RecordOperationOperationRemove

record RecordOperation =
  Domain :: string
  Rdata :: string
  Ttl :: int
  Rtype :: string
  Operation :: RecordOperationOperation

text \<open>
  A Go map from zone id to a value is an association list with one pair for a key; the
  order of the pairs is not the order in which \<open>range\<close> visits them (see \<open>rangeZones\<close>
  and \<open>rangeChanges\<close> below). Reading a key that is not stored gives the zero value.
\<close>

type_synonym zoneMap = "(string \<times> ZoneSummary) list"
type_synonym changeMap = "(string \<times> RecordOperation list) list"

fun put :: "string \<Rightarrow> 'v \<Rightarrow> (string \<times> 'v) list \<Rightarrow> (string \<times> 'v) list" where
  "put k v [] = [(k, v)]"
| "put k v ((k', v') # m) = (if k' = k then (k, v) # m else (k', v') # put k v m)"

fun opsAt :: "changeMap \<Rightarrow> string \<Rightarrow> RecordOperation list" where
  "opsAt [] k = []"
| "opsAt ((k', v') # m) k = (if k' = k then v' else opsAt m k)"

text \<open>
  The struct \<open>zoneCache\<close> is declared outside the sources. The provider sets its
  \<open>duration\<close> and reads its \<open>zones\<close>; the specification adds the time of the last reset.
\<close>

record zoneCache =
  cache_age :: int
  cache_duration :: int
  cache_zones :: zoneMap

section \<open>Library functions\<close>

text \<open>
  Functions that the providers call and that are not among the sources. They are
  parameters of the model:
  \<^item> \<open>ZoneIDName.FindZone\<close>, \<open>endpoint.NewEndpoint\<close> (which returns a pointer),
    \<open>provider.EnsureTrailingDot\<close>, \<open>provider.SupportedRecordType\<close> (called by the
    \<open>Records\<close> of the OCI provider only) and \<open>endpoint.TTL.IsConfigured\<close>;
  \<^item> the methods \<open>Next\<close> and \<open>Done\<close> of \<open>cloudflare.ResultInfo\<close>;
  \<^item> \<open>dns.GetGetZoneScopeEnumValues\<close>, the zone scopes the OCI SDK knows;
  \<^item> the methods \<open>Expired\<close> and \<open>Reset\<close> of \<open>zoneCache\<close>, which read the clock;
  \<^item> \<open>rangeZones\<close> and \<open>rangeChanges\<close>, the order in which the Go runtime visits the
    pairs of a map in a \<open>range\<close> loop, which the language leaves open.
\<close>

record library =
  FindZone :: "ZoneIDName \<Rightarrow> string \<Rightarrow> string \<times> string"
  Next :: "ResultInfo \<Rightarrow> ResultInfo"
  Done :: "ResultInfo \<Rightarrow> bool"
  NewEndpoint :: "string \<Rightarrow> string \<Rightarrow> string list \<Rightarrow> Endpoint option"
  EnsureTrailingDot :: "string \<Rightarrow> string"
  SupportedRecordType :: "string \<Rightarrow> bool"
  IsConfigured :: "int \<Rightarrow> bool"
  GetGetZoneScopeEnumValues :: "string list"
  Expired :: "zoneCache \<Rightarrow> bool"
  Reset :: "zoneCache \<Rightarrow> zoneMap \<Rightarrow> zoneCache"
  rangeZones :: "zoneMap \<Rightarrow> zoneMap"
  rangeChanges :: "changeMap \<Rightarrow> changeMap"

section \<open>Cloudflare Tunnel provider: the provider and its methods\<close>

text \<open>
  The fields of the provider that a run reads. \<open>domainFilter\<close> is the \<open>Match\<close> predicate
  of the configured \<open>endpoint.DomainFilter\<close>, \<open>zoneIDFilter\<close> the \<open>ZoneIDs\<close> of the
  configured \<open>provider.ZoneIDFilter\<close>.
\<close>

record CloudFlareTunnelProvider =
  Client :: CloudFlareAPIClient
  domainFilter :: "string \<Rightarrow> bool"
  DryRun :: bool
  accountId :: string
  tunnelId :: string
  zoneIDFilter :: "string list"
  DNSRecordsPerPage :: int

text \<open>
  What a run changes: the calls made on the client, in order; the lines written to the
  standard output by \<open>fmt.Println\<close> and \<open>fmt.Printf\<close>; and the map \<open>zoneNameIDMapper\<close>
  of the provider. The messages of the logger (\<open>log.Info\<close>) are not modelled.
\<close>

record world =
  calls :: "call list"
  out :: "string list"
  zoneNameIDMapper :: ZoneIDName

text \<open>
  How a function is left other than by falling through: it returns an error value
  (\<open>None\<close> is nil), or it panics.
\<close>

datatype exit = Return "error option" | Panic

definition defaultOriginRequestConfig :: OriginRequestConfig where
  "defaultOriginRequestConfig = \<lparr>NoTLSVerify = Some True, Http2Origin = Some True\<rparr>"

definition convertHttps :: "string \<Rightarrow> string" where
  "convertHttps target = ''https://'' @ target @ '':443''"

subsection \<open>Records\<close>

text \<open>The loop of \<open>Records\<close> over the ingress rules of the configuration.\<close>

fun recordsLoop ::
  "library \<Rightarrow> UnvalidatedIngressRule list \<Rightarrow> Endpoint option list \<Rightarrow> Endpoint option list" where
  "recordsLoop L [] endpoints = endpoints"
| "recordsLoop L (config # rest) endpoints =
     recordsLoop L rest
       (endpoints @ [NewEndpoint L (Hostname config) RecordTypeA [Service config]])"

definition Records ::
  "library \<Rightarrow> CloudFlareTunnelProvider \<Rightarrow> world \<Rightarrow> (error + Endpoint option list) \<times> world" where
  "Records L p w =
     (let w' = w\<lparr>calls := calls w @ [GetTunnelConfiguration_call (accountId p) (tunnelId p)]\<rparr> in
      case GetTunnelConfiguration (Client p) (calls w) (accountId p) (tunnelId p) of
        Inl err \<Rightarrow> (Inl (''failed to get tunnel configs: '' @ err), w')
      | Inr configResult \<Rightarrow> (Inr (recordsLoop L (Ingress configResult) []), w'))"

subsection \<open>Zones and the zone mapper\<close>

fun zoneDetailsLoop ::
  "CloudFlareAPIClient \<Rightarrow> string list \<Rightarrow> Zone list \<Rightarrow> world \<Rightarrow> (Zone list \<times> error option) \<times> world" where
  "zoneDetailsLoop c [] result w = ((result, None), w)"
| "zoneDetailsLoop c (zoneID # rest) result w =
     (let w' = w\<lparr>calls := calls w @ [ZoneDetails_call zoneID]\<rparr> in
      case ZoneDetails c (calls w) zoneID of
        Inl err \<Rightarrow> ((result, Some err), w')
      | Inr detailResponse \<Rightarrow> zoneDetailsLoop c rest (result @ [detailResponse]) w')"

definition Zones :: "CloudFlareTunnelProvider \<Rightarrow> world \<Rightarrow> (Zone list \<times> error option) \<times> world" where
  "Zones p w =
     (if (case zoneIDFilter p of [] \<Rightarrow> False | z # _ \<Rightarrow> z \<noteq> []) then
        zoneDetailsLoop (Client p) (zoneIDFilter p) [] w
      else
        (let w' = w\<lparr>calls := calls w @ [ListZonesContext_call]\<rparr> in
         case ListZonesContext (Client p) (calls w) of
           Inl err \<Rightarrow> (([], Some err), w')
         | Inr zonesResponse \<Rightarrow>
             ((filter (\<lambda>zone. domainFilter p (zone_Name zone)) zonesResponse, None), w')))"

definition updateZoneIdMapper :: "CloudFlareTunnelProvider \<Rightarrow> world \<Rightarrow> error option \<times> world" where
  "updateZoneIdMapper p w =
     (case Zones p w of
        ((zones, Some err), w') \<Rightarrow> (Some err, w')
      | ((zones, None), w') \<Rightarrow>
          (None, w'\<lparr>zoneNameIDMapper :=
             foldl (\<lambda>m z. zoneAdd m (zone_ID z) (zone_Name z)) (zoneNameIDMapper w') zones\<rparr>))"

subsection \<open>Record lookup\<close>

fun getRecordID :: "DNSRecord list \<Rightarrow> DNSRecord \<Rightarrow> string" where
  "getRecordID [] record = []"
| "getRecordID (zoneRecord # records) record =
     (if rec_Name zoneRecord = rec_Name record \<and> rec_Type zoneRecord = rec_Type record
      then rec_ID zoneRecord else getRecordID records record)"

text \<open>
  The loop of \<open>listDNSRecordsWithAutoPagination\<close> has no bound of its own: it ends when
  the client reports an error or the next page is \<open>Done\<close>. A run that never ends is
  \<open>None\<close>.
\<close>

partial_function (option) listDNSRecordsLoop ::
  "library \<Rightarrow> CloudFlareAPIClient \<Rightarrow> string \<Rightarrow> ResultInfo \<Rightarrow> DNSRecord list \<Rightarrow> world \<Rightarrow>
   ((error + DNSRecord list) \<times> world) option" where
  "listDNSRecordsLoop L c zoneID params records w =
     (let w' = w\<lparr>calls := calls w @ [ListDNSRecords_call zoneID params]\<rparr> in
      case ListDNSRecords c (calls w) zoneID params of
        Inl err \<Rightarrow> Some (Inl err, w')
      | Inr (pageRecords, resultInfo) \<Rightarrow>
          (let records' = records @ pageRecords; params' = Next L resultInfo in
           if Done L params' then Some (Inr records', w')
           else listDNSRecordsLoop L c zoneID params' records' w'))"

declare listDNSRecordsLoop.simps [code]

definition listDNSRecordsWithAutoPagination ::
  "library \<Rightarrow> CloudFlareTunnelProvider \<Rightarrow> string \<Rightarrow> world \<Rightarrow> ((error + DNSRecord list) \<times> world) option" where
  "listDNSRecordsWithAutoPagination L p zoneID w =
     listDNSRecordsLoop L (Client p) zoneID
       \<lparr>Page = 1, PerPage = DNSRecordsPerPage p, TotalPages = 0, Count = 0, Total = 0\<rparr> [] w"

subsection \<open>ApplyChanges: what is computed before any change is made\<close>

text \<open>
  The first loop of \<open>ApplyChanges\<close>: the rules go into the ordered map until a rule with
  an empty hostname is met, which becomes \<open>catchAll\<close> and ends the loop.
\<close>

fun loadIngress ::
  "UnvalidatedIngressRule list \<Rightarrow> OrderedMap \<Rightarrow> UnvalidatedIngressRule \<Rightarrow>
   OrderedMap \<times> UnvalidatedIngressRule" where
  "loadIngress [] ingressConfigs catchAll = (ingressConfigs, catchAll)"
| "loadIngress (v # vs) ingressConfigs catchAll =
     (if Hostname v = [] then (ingressConfigs, v)
      else loadIngress vs (Add ingressConfigs v) catchAll)"

definition println :: "string \<Rightarrow> world \<Rightarrow> world" where
  "println line w = w\<lparr>out := out w @ [line @ [CHR 0x0A]]\<rparr>"

definition cfargotunnel :: "CloudFlareTunnelProvider \<Rightarrow> string" where
  "cfargotunnel p = tunnelId p @ ''.cfargotunnel.com''"

text \<open>
  The loop over \<open>changes.Create\<close>. \<open>Targets[0]\<close> of an endpoint without targets is an
  index out of range, a panic.
\<close>

fun createLoop ::
  "library \<Rightarrow> CloudFlareTunnelProvider \<Rightarrow> Endpoint list \<Rightarrow> OrderedMap \<Rightarrow>
   CreateDNSRecordParams list \<Rightarrow> world \<Rightarrow>
   (exit + OrderedMap \<times> CreateDNSRecordParams list) \<times> world" where
  "createLoop L p [] ingressConfigs dnsCreateParams w = (Inr (ingressConfigs, dnsCreateParams), w)"
| "createLoop L p (createEndpoint # rest) ingressConfigs dnsCreateParams w =
     (if RecordType createEndpoint \<noteq> RecordTypeA then
        createLoop L p rest ingressConfigs dnsCreateParams w
      else
        (case Targets createEndpoint of
           [] \<Rightarrow> (Inl Panic, w)
         | target # _ \<Rightarrow>
             (let ingressConfigs' = Add ingressConfigs
                    \<lparr>Hostname = DNSName createEndpoint, Path = [],
                     Service = convertHttps target,
                     OriginRequest = Some defaultOriginRequestConfig\<rparr>;
                  zoneID = fst (FindZone L (zoneNameIDMapper w) (DNSName createEndpoint)) in
              if zoneID = [] then
                createLoop L p rest ingressConfigs' dnsCreateParams
                  (println ''zoneid is empty. skipping...'' w)
              else
                createLoop L p rest ingressConfigs'
                  (dnsCreateParams @
                    [\<lparr>cp_Name = DNSName createEndpoint, cp_TTL = 1, cp_Proxied = Some True,
                      cp_Type = RecordTypeCNAME, cp_Content = cfargotunnel p,
                      cp_ZoneID = zoneID\<rparr>]) w)))"

text \<open>The loop over \<open>changes.UpdateNew\<close>; an error of the record listing is returned as it is.\<close>

fun updateLoop ::
  "library \<Rightarrow> CloudFlareTunnelProvider \<Rightarrow> Endpoint list \<Rightarrow> OrderedMap \<Rightarrow>
   dnsUpdateParam list \<Rightarrow> world \<Rightarrow>
   ((exit + OrderedMap \<times> dnsUpdateParam list) \<times> world) option" where
  "updateLoop L p [] ingressConfigs dnsUpdateParams w = Some (Inr (ingressConfigs, dnsUpdateParams), w)"
| "updateLoop L p (desired # rest) ingressConfigs dnsUpdateParams w =
     (if RecordType desired \<noteq> RecordTypeA then
        updateLoop L p rest ingressConfigs dnsUpdateParams w
      else
        (case Targets desired of
           [] \<Rightarrow> Some (Inl Panic, w)
         | target # _ \<Rightarrow>
             (let ingressConfigs' = Update ingressConfigs
                    \<lparr>Hostname = DNSName desired, Path = [],
                     Service = convertHttps target,
                     OriginRequest = Some defaultOriginRequestConfig\<rparr>;
                  zoneID = fst (FindZone L (zoneNameIDMapper w) (DNSName desired)) in
              if zoneID = [] then
                updateLoop L p rest ingressConfigs' dnsUpdateParams
                  (println ''zoneid is empty. skipping...'' w)
              else
                (case listDNSRecordsWithAutoPagination L p zoneID w of
                   None \<Rightarrow> None
                 | Some (Inl err, w') \<Rightarrow> Some (Inl (Return (Some err)), w')
                 | Some (Inr records, w') \<Rightarrow>
                     (let recordID = getRecordID records
                            \<lparr>rec_ID = [], rec_Name = DNSName desired,
                             rec_Type = RecordTypeCNAME, rec_Content = target,
                             rec_ZoneID = zoneID\<rparr> in
                      updateLoop L p rest ingressConfigs'
                        (dnsUpdateParams @
                          [(zoneID,
                            \<lparr>up_ID = recordID, up_Name = DNSName desired, up_TTL = 1,
                             up_Proxied = Some True, up_Type = RecordTypeCNAME,
                             up_Content = cfargotunnel p\<rparr>)]) w')))))"

text \<open>The loop over \<open>changes.Delete\<close>.\<close>

fun deleteLoop ::
  "library \<Rightarrow> CloudFlareTunnelProvider \<Rightarrow> Endpoint list \<Rightarrow> OrderedMap \<Rightarrow>
   dnsDeleteParam list \<Rightarrow> world \<Rightarrow>
   ((exit + OrderedMap \<times> dnsDeleteParam list) \<times> world) option" where
  "deleteLoop L p [] ingressConfigs dnsDeleteParams w = Some (Inr (ingressConfigs, dnsDeleteParams), w)"
| "deleteLoop L p (deleteEndpoint # rest) ingressConfigs dnsDeleteParams w =
     (if RecordType deleteEndpoint \<noteq> RecordTypeA then
        deleteLoop L p rest ingressConfigs dnsDeleteParams w
      else
        (let ingressConfigs' = Remove ingressConfigs
               \<lparr>Hostname = DNSName deleteEndpoint, Path = [], Service = [],
                OriginRequest = None\<rparr>;
             zoneID = fst (FindZone L (zoneNameIDMapper w) (DNSName deleteEndpoint)) in
         if zoneID = [] then
           deleteLoop L p rest ingressConfigs' dnsDeleteParams
             (println ''zoneid is empty. skipping...'' w)
         else
           (case listDNSRecordsWithAutoPagination L p zoneID w of
              None \<Rightarrow> None
            | Some (Inl err, w') \<Rightarrow> Some (Inl (Return (Some err)), w')
            | Some (Inr records, w') \<Rightarrow>
                deleteLoop L p rest ingressConfigs'
                  (dnsDeleteParams @
                    [(zoneID, getRecordID records
                        \<lparr>rec_ID = [], rec_Name = DNSName deleteEndpoint,
                         rec_Type = RecordTypeCNAME, rec_Content = [], rec_ZoneID = []\<rparr>)])
                  w')))"

text \<open>
  What \<open>ApplyChanges\<close> has in hand when it reaches the test of \<open>DryRun\<close>: the ordered
  map and the catch-all rule, the tunnel configuration to push and the three queues.
\<close>

record changePlan =
  ingressConfigs :: OrderedMap
  catchAll :: UnvalidatedIngressRule
  tunnelConfigParam :: TunnelConfigurationParams
  dnsCreateParams :: "CreateDNSRecordParams list"
  dnsUpdateParams :: "dnsUpdateParam list"
  dnsDeleteParams :: "dnsDeleteParam list"

text \<open>Lines 116 to 246 of \<open>ApplyChanges\<close>.\<close>

definition planChanges ::
  "library \<Rightarrow> CloudFlareTunnelProvider \<Rightarrow> Changes \<Rightarrow> world \<Rightarrow> ((exit + changePlan) \<times> world) option" where
  "planChanges L p changes w =
     (case updateZoneIdMapper p w of
        (Some err, w1) \<Rightarrow> Some (Inl (Return (Some (''failed to update zoneidmapper: '' @ err))), w1)
      | (None, w1) \<Rightarrow>
          (let w2 = w1\<lparr>calls := calls w1 @ [GetTunnelConfiguration_call (accountId p) (tunnelId p)]\<rparr> in
           case GetTunnelConfiguration (Client p) (calls w1) (accountId p) (tunnelId p) of
             Inl err \<Rightarrow> Some (Inl (Return (Some (''failed to get tunnel configs: '' @ err))), w2)
           | Inr oldConfig \<Rightarrow>
               (case loadIngress (Ingress oldConfig)
                       (NewOrderedMap (int (length (Ingress oldConfig)))) zeroRule of
                  (ic0, ca) \<Rightarrow>
                    (case createLoop L p (Create changes) ic0 [] w2 of
                       (Inl x, w3) \<Rightarrow> Some (Inl x, w3)
                     | (Inr (ic1, creates), w3) \<Rightarrow>
                         (case updateLoop L p (UpdateNew changes) ic1 [] w3 of
                            None \<Rightarrow> None
                          | Some (Inl x, w4) \<Rightarrow> Some (Inl x, w4)
                          | Some (Inr (ic2, updates), w4) \<Rightarrow>
                              (case deleteLoop L p (Delete changes) ic2 [] w4 of
                                 None \<Rightarrow> None
                               | Some (Inl x, w5) \<Rightarrow> Some (Inl x, w5)
                               | Some (Inr (ic3, deletes), w5) \<Rightarrow>
                                   Some (Inr
                                     \<lparr>ingressConfigs = ic3, catchAll = ca,
                                      tunnelConfigParam =
                                        \<lparr>TunnelID = tunnelId p,
                                         Config = oldConfig\<lparr>Ingress := Get ic3 @ [ca]\<rparr>\<rparr>,
                                      dnsCreateParams = creates,
                                      dnsUpdateParams = updates,
                                      dnsDeleteParams = deletes\<rparr>, w5)))))))"

subsection \<open>ApplyChanges: the changes made\<close>

fun createRecords :: "CloudFlareAPIClient \<Rightarrow> CreateDNSRecordParams list \<Rightarrow> world \<Rightarrow> world" where
  "createRecords c [] w = w"
| "createRecords c (createParam # rest) w =
     (let w' = w\<lparr>calls := calls w @ [CreateDNSRecord_call (cp_ZoneID createParam) createParam]\<rparr> in
      case CreateDNSRecord c (calls w) (cp_ZoneID createParam) createParam of
        Some err \<Rightarrow> createRecords c rest (w'\<lparr>out := out w' @ [''failed to create dns record: '' @ err @ [CHR 0x0A]]\<rparr>)
      | None \<Rightarrow> createRecords c rest w')"

fun updateRecords :: "CloudFlareAPIClient \<Rightarrow> dnsUpdateParam list \<Rightarrow> world \<Rightarrow> world" where
  "updateRecords c [] w = w"
| "updateRecords c (updateParam # rest) w =
     (let w' = w\<lparr>calls := calls w @ [UpdateDNSRecord_call (fst updateParam) (snd updateParam)]\<rparr> in
      case UpdateDNSRecord c (calls w) (fst updateParam) (snd updateParam) of
        Some err \<Rightarrow> updateRecords c rest (w'\<lparr>out := out w' @ [''failed to update dns record: '' @ err @ [CHR 0x0A]]\<rparr>)
      | None \<Rightarrow> updateRecords c rest w')"

fun deleteRecords :: "CloudFlareAPIClient \<Rightarrow> dnsDeleteParam list \<Rightarrow> world \<Rightarrow> world" where
  "deleteRecords c [] w = w"
| "deleteRecords c (deleteParam # rest) w =
     (let w' = w\<lparr>calls := calls w @ [DeleteDNSRecord_call (fst deleteParam) (snd deleteParam)]\<rparr> in
      case DeleteDNSRecord c (calls w) (fst deleteParam) (snd deleteParam) of
        Some err \<Rightarrow> deleteRecords c rest (w'\<lparr>out := out w' @ [''failed to delete dns record: '' @ err @ [CHR 0x0A]]\<rparr>)
      | None \<Rightarrow> deleteRecords c rest w')"

text \<open>Lines 252 to 288 of \<open>ApplyChanges\<close>: the push, then the three queues.\<close>

definition applyPlan :: "CloudFlareTunnelProvider \<Rightarrow> changePlan \<Rightarrow> world \<Rightarrow> exit \<times> world" where
  "applyPlan p pl w =
     (let w1 = w\<lparr>calls := calls w @
                 [UpdateTunnelConfiguration_call (accountId p) (tunnelConfigParam pl)]\<rparr> in
      case UpdateTunnelConfiguration (Client p) (calls w) (accountId p) (tunnelConfigParam pl) of
        Some err \<Rightarrow> (Return (Some (''failed to update tunnel configs: '' @ err)), w1)
      | None \<Rightarrow>
          (Return None,
           deleteRecords (Client p) (dnsDeleteParams pl)
             (updateRecords (Client p) (dnsUpdateParams pl)
               (createRecords (Client p) (dnsCreateParams pl) w1))))"

definition ApplyChanges ::
  "library \<Rightarrow> CloudFlareTunnelProvider \<Rightarrow> Changes \<Rightarrow> world \<Rightarrow> (exit \<times> world) option" where
  "ApplyChanges L p changes w =
     (case planChanges L p changes w of
        None \<Rightarrow> None
      | Some (Inl x, w') \<Rightarrow> Some (x, w')
      | Some (Inr pl, w') \<Rightarrow>
          if DryRun p then Some (Return None, w') else Some (applyPlan p pl w'))"

text \<open>The calls that change something at Cloudflare.\<close>

fun mutating :: "call \<Rightarrow> bool" where
  "mutating (UpdateTunnelConfiguration_call _ _) = True"
| "mutating (CreateDNSRecord_call _ _) = True"
| "mutating (UpdateDNSRecord_call _ _) = True"
| "mutating (DeleteDNSRecord_call _ _) = True"
| "mutating _ = False"

subsection \<open>What the three queues are expected to do\<close>

text \<open>
  The call that executes a queued operation, and the lines that report the failures of a
  queue: operation \<open>i\<close> of a queue is tried after the operations before it have been
  tried, whatever their outcome, and a line is written for it iff the client reports an
  error for it.
\<close>

definition createCall :: "CreateDNSRecordParams \<Rightarrow> call" where
  "createCall createParam = CreateDNSRecord_call (cp_ZoneID createParam) createParam"

definition updateCall :: "dnsUpdateParam \<Rightarrow> call" where
  "updateCall updateParam = UpdateDNSRecord_call (fst updateParam) (snd updateParam)"

definition deleteCall :: "dnsDeleteParam \<Rightarrow> call" where
  "deleteCall deleteParam = DeleteDNSRecord_call (fst deleteParam) (snd deleteParam)"

definition failureLine :: "string \<Rightarrow> error option \<Rightarrow> string list" where
  "failureLine what r =
     (case r of None \<Rightarrow> []
      | Some err \<Rightarrow> [''failed to '' @ what @ '' dns record: '' @ err @ [CHR 0x0A]])"

definition createFailures ::
  "CloudFlareAPIClient \<Rightarrow> call list \<Rightarrow> CreateDNSRecordParams list \<Rightarrow> string list" where
  "createFailures c tr ps =
     concat (map (\<lambda>i. failureLine ''create''
                    (CreateDNSRecord c (tr @ map createCall (take i ps))
                       (cp_ZoneID (ps ! i)) (ps ! i)))
               [0..<length ps])"

definition updateFailures ::
  "CloudFlareAPIClient \<Rightarrow> call list \<Rightarrow> dnsUpdateParam list \<Rightarrow> string list" where
  "updateFailures c tr ps =
     concat (map (\<lambda>i. failureLine ''update''
                    (UpdateDNSRecord c (tr @ map updateCall (take i ps))
                       (fst (ps ! i)) (snd (ps ! i))))
               [0..<length ps])"

definition deleteFailures ::
  "CloudFlareAPIClient \<Rightarrow> call list \<Rightarrow> dnsDeleteParam list \<Rightarrow> string list" where
  "deleteFailures c tr ps =
     concat (map (\<lambda>i. failureLine ''delete''
                    (DeleteDNSRecord c (tr @ map deleteCall (take i ps))
                       (fst (ps ! i)) (snd (ps ! i))))
               [0..<length ps])"

section \<open>OCI provider (the source file of package oci)\<close>

text \<open>
  The names of the OCI provider that the Cloudflare provider also uses carry the prefix
  \<open>OCI_\<close> or \<open>oci_\<close>.
\<close>

definition ociRecordTTL :: int where
  "ociRecordTTL = 300"

text \<open>
  A call of a method of \<open>ociDNSClient\<close>: the compartment, then the scope and the page
  of a zone listing, or the zone and the items of a patch.
\<close>

datatype ociCall =
    ListZones_call string string "string option"
  | PatchZoneRecords_call string string "RecordOperation list"

text \<open>
  The client, as for Cloudflare: each method is a function of the calls made so far and
  of the request. \<open>ListZones\<close> answers the items of a page and the next page, if any.
\<close>

record ociDNSClient =
  ListZones :: "ociCall list \<Rightarrow> string \<Rightarrow> string \<Rightarrow> string option \<Rightarrow>
                error + ZoneSummary list \<times> string option"
  PatchZoneRecords :: "ociCall list \<Rightarrow> string \<Rightarrow> string \<Rightarrow> RecordOperation list \<Rightarrow> error option"

text \<open>
  The fields of \<open>OCIProvider\<close> that a run reads: \<open>CompartmentID\<close> is \<open>cfg.CompartmentID\<close>,
  the two filters are their \<open>Match\<close> predicates.
\<close>

record OCIProvider =
  client :: ociDNSClient
  CompartmentID :: string
  oci_domainFilter :: "string \<Rightarrow> bool"
  oci_zoneIDFilter :: "string \<Rightarrow> bool"
  zoneScope :: string
  dryRun :: bool

text \<open>What a run changes: the calls made on the client and the zone cache.\<close>

record ociWorld =
  oci_calls :: "ociCall list"
  zoneCacheOf :: zoneCache

subsection \<open>Record operations\<close>

text \<open>\<open>strings.Join\<close>.\<close>

fun join :: "string list \<Rightarrow> string \<Rightarrow> string" where
  "join [] sep = []"
| "join [x] sep = x"
| "join (x # y # ys) sep = x @ sep @ join (y # ys) sep"

text \<open>
  \<open>newRecordOperation\<close>. For a CNAME the first target is replaced by its form with a
  trailing dot; \<open>targets[0]\<close> of an endpoint without targets is a panic.
\<close>

definition newRecordOperation ::
  "library \<Rightarrow> Endpoint \<Rightarrow> RecordOperationOperation \<Rightarrow> exit + RecordOperation" where
  "newRecordOperation L ep opType =
     (case (if RecordType ep = RecordTypeCNAME then
              (case Targets ep of
                 [] \<Rightarrow> None
               | t # ts \<Rightarrow> Some (EnsureTrailingDot L t # ts))
            else Some (Targets ep)) of
        None \<Rightarrow> Inl Panic
      | Some targets \<Rightarrow>
          Inr \<lparr>Domain = DNSName ep,
               Rdata = join targets '' '',
               Ttl = (if IsConfigured L (RecordTTL ep) then RecordTTL ep else ociRecordTTL),
               Rtype = RecordType ep,
               Operation = opType\<rparr>)"

fun newFilteredRecordOperationsLoop ::
  "library \<Rightarrow> OCIProvider \<Rightarrow> Endpoint list \<Rightarrow> RecordOperationOperation \<Rightarrow>
   RecordOperation list \<Rightarrow> exit + RecordOperation list" where
  "newFilteredRecordOperationsLoop L p [] opType ops = Inr ops"
| "newFilteredRecordOperationsLoop L p (endpoint # rest) opType ops =
     (if oci_domainFilter p (DNSName endpoint) then
        (case newRecordOperation L endpoint opType of
           Inl x \<Rightarrow> Inl x
         | Inr op \<Rightarrow> newFilteredRecordOperationsLoop L p rest opType (ops @ [op]))
      else newFilteredRecordOperationsLoop L p rest opType ops)"

definition newFilteredRecordOperations ::
  "library \<Rightarrow> OCIProvider \<Rightarrow> Endpoint list \<Rightarrow> RecordOperationOperation \<Rightarrow>
   exit + RecordOperation list" where
  "newFilteredRecordOperations L p endpoints opType =
     newFilteredRecordOperationsLoop L p endpoints opType []"

subsection \<open>Zones\<close>

text \<open>
  The loop of \<open>addPaginatedZones\<close> ends when the client reports an error or no next
  page; a run that never ends is \<open>None\<close>.
\<close>

definition addZones :: "OCIProvider \<Rightarrow> zoneMap \<Rightarrow> ZoneSummary list \<Rightarrow> zoneMap" where
  "addZones p zones items =
     foldl (\<lambda>zs zone.
              if oci_domainFilter p (zs_Name zone) \<and> oci_zoneIDFilter p (zs_Id zone)
              then put (zs_Id zone) zone zs else zs)
       zones items"

partial_function (option) addPaginatedZonesLoop ::
  "OCIProvider \<Rightarrow> zoneMap \<Rightarrow> string \<Rightarrow> string option \<Rightarrow> ociWorld \<Rightarrow>
   ((error + zoneMap) \<times> ociWorld) option" where
  "addPaginatedZonesLoop p zones scope page w =
     (let w' = w\<lparr>oci_calls := oci_calls w @ [ListZones_call (CompartmentID p) scope page]\<rparr> in
      case ListZones (client p) (oci_calls w) (CompartmentID p) scope page of
        Inl err \<Rightarrow> Some (Inl (''listing zones in '' @ CompartmentID p @ '': '' @ err), w')
      | Inr (items, OpcNextPage) \<Rightarrow>
          (let zones' = addZones p zones items in
           if OpcNextPage = None then Some (Inr zones', w')
           else addPaginatedZonesLoop p zones' scope OpcNextPage w'))"

declare addPaginatedZonesLoop.simps [code]

definition addPaginatedZones ::
  "OCIProvider \<Rightarrow> zoneMap \<Rightarrow> string \<Rightarrow> ociWorld \<Rightarrow> ((error + zoneMap) \<times> ociWorld) option" where
  "addPaginatedZones p zones scope w = addPaginatedZonesLoop p zones scope None w"

fun scopesLoop ::
  "OCIProvider \<Rightarrow> string list \<Rightarrow> zoneMap \<Rightarrow> ociWorld \<Rightarrow> ((error + zoneMap) \<times> ociWorld) option" where
  "scopesLoop p [] zones w = Some (Inr zones, w)"
| "scopesLoop p (scope # rest) zones w =
     (case addPaginatedZones p zones scope w of
        None \<Rightarrow> None
      | Some (Inl err, w') \<Rightarrow> Some (Inl err, w')
      | Some (Inr zones', w') \<Rightarrow> scopesLoop p rest zones' w')"

definition OCI_zones ::
  "library \<Rightarrow> OCIProvider \<Rightarrow> ociWorld \<Rightarrow> ((error + zoneMap) \<times> ociWorld) option" where
  "OCI_zones L p w =
     (if \<not> Expired L (zoneCacheOf w) then Some (Inr (cache_zones (zoneCacheOf w)), w)
      else
        (case scopesLoop p
                (if zoneScope p = [] then GetGetZoneScopeEnumValues L else [zoneScope p]) [] w of
           None \<Rightarrow> None
         | Some (Inl err, w') \<Rightarrow> Some (Inl err, w')
         | Some (Inr zones, w') \<Rightarrow>
             Some (Inr zones, w'\<lparr>zoneCacheOf := Reset L (zoneCacheOf w') zones\<rparr>)))"

subsection \<open>Operations by zone\<close>

definition operationsByZone :: "library \<Rightarrow> zoneMap \<Rightarrow> RecordOperation list \<Rightarrow> changeMap" where
  "operationsByZone L zones ops =
     (let zs = map snd (rangeZones L zones);
          zoneNameIDMapper = foldl (\<lambda>m z. zoneAdd m (zs_Id z) (zs_Name z)) Map.empty zs;
          changes = foldl (\<lambda>c z. put (zs_Id z) [] c) [] zs;
          changes' = foldl (\<lambda>c op.
                        (let zoneID = fst (FindZone L zoneNameIDMapper (Domain op)) in
                         if zoneID \<noteq> [] then put zoneID (opsAt c zoneID @ [op]) c else c))
                      changes ops
      in filter (\<lambda>zo. snd zo \<noteq> []) changes')"

subsection \<open>ApplyChanges\<close>

text \<open>The four lists of operations of \<open>ApplyChanges\<close>, appended in the order of the code.\<close>

definition changeOperations :: "library \<Rightarrow> OCIProvider \<Rightarrow> Changes \<Rightarrow> exit + RecordOperation list" where
  "changeOperations L p changes =
     (case newFilteredRecordOperations L p (Create changes) RecordOperationOperationAdd of
        Inl x \<Rightarrow> Inl x
      | Inr creates \<Rightarrow>
     (case newFilteredRecordOperations L p (UpdateNew changes) RecordOperationOperationAdd of
        Inl x \<Rightarrow> Inl x
      | Inr updateNews \<Rightarrow>
     (case newFilteredRecordOperations L p (UpdateOld changes) RecordOperationOperationRemove of
        Inl x \<Rightarrow> Inl x
      | Inr updateOlds \<Rightarrow>
     (case newFilteredRecordOperations L p (Delete changes) RecordOperationOperationRemove of
        Inl x \<Rightarrow> Inl x
      | Inr deletes \<Rightarrow> Inr (creates @ updateNews @ updateOlds @ deletes)))))"

definition patchCall :: "OCIProvider \<Rightarrow> string \<times> RecordOperation list \<Rightarrow> ociCall" where
  "patchCall p zo = PatchZoneRecords_call (CompartmentID p) (fst zo) (snd zo)"

text \<open>The last loop of \<open>ApplyChanges\<close>, over the zones in the order of \<open>range\<close>.\<close>

fun patchLoop :: "OCIProvider \<Rightarrow> changeMap \<Rightarrow> ociWorld \<Rightarrow> error option \<times> ociWorld" where
  "patchLoop p [] w = (None, w)"
| "patchLoop p (zo # rest) w =
     (let w' = w\<lparr>oci_calls := oci_calls w @ [patchCall p zo]\<rparr> in
      case PatchZoneRecords (client p) (oci_calls w) (CompartmentID p) (fst zo) (snd zo) of
        Some err \<Rightarrow> (Some err, w')
      | None \<Rightarrow> patchLoop p rest w')"

definition OCI_ApplyChanges ::
  "library \<Rightarrow> OCIProvider \<Rightarrow> Changes \<Rightarrow> ociWorld \<Rightarrow> (exit \<times> ociWorld) option" where
  "OCI_ApplyChanges L p changes w =
     (case changeOperations L p changes of
        Inl x \<Rightarrow> Some (x, w)
      | Inr ops \<Rightarrow>
          if ops = [] then Some (Return None, w)
          else
            (case OCI_zones L p w of
               None \<Rightarrow> None
             | Some (Inl err, w') \<Rightarrow> Some (Return (Some (''fetching zones: '' @ err)), w')
             | Some (Inr zones, w') \<Rightarrow>
                 (let opsByZone = operationsByZone L zones ops in
                  if dryRun p then Some (Return None, w')
                  else
                    (case patchLoop p (rangeChanges L opsByZone) w' of
                       (err, w'') \<Rightarrow> Some (Return err, w'')))))"

text \<open>
  What the loop over the zones is expected to do before a failure: the patches of the
  zones of \<open>zs\<close> all succeed when they are made one after the other from the calls \<open>tr\<close>.
\<close>

definition patchesSucceed :: "OCIProvider \<Rightarrow> ociCall list \<Rightarrow> changeMap \<Rightarrow> bool" where
  "patchesSucceed p tr zs =
     list_all (\<lambda>i. PatchZoneRecords (client p) (tr @ map (patchCall p) (take i zs))
                      (CompartmentID p) (fst (zs ! i)) (snd (zs ! i)) = None)
       [0..<length zs]"

section \<open>Concrete clients, library and providers\<close>

text \<open>
  Stand-ins on which the model is evaluated. The library: \<open>FindZone\<close> finds the zone
  whose name is the part of the host name after its first label, \<open>Next\<close> advances the
  page and \<open>Done\<close> holds past the last page; a TTL is configured when it is positive;
  the cache is expired when it holds no zone, and a reset stores the zones; \<open>range\<close>
  visits a map in the order of its pairs.
\<close>

text \<open>
  Modelled from the spec: \<open>provider.EnsureTrailingDot\<close> is not among the sources;
  trailing-dot normalisation gives a name its final dot unless it has one.
\<close>

definition exEnsureTrailingDot :: "string \<Rightarrow> string" where
  "exEnsureTrailingDot s = (if s \<noteq> [] \<and> last s = CHR ''.'' then s else s @ ''.'')"

definition exFindZone :: "ZoneIDName \<Rightarrow> string \<Rightarrow> string \<times> string" where
  "exFindZone z h =
     (let zoneName = drop 1 (dropWhile (\<lambda>ch. ch \<noteq> CHR ''.'') h) in
      if z ''zone1'' = Some zoneName then (''zone1'', zoneName)
      else if z ''zone2'' = Some zoneName then (''zone2'', zoneName)
      else if z ''zone3'' = Some zoneName then (''zone3'', zoneName)
      else ([], []))"

definition exLibrary :: library where
  "exLibrary =
     \<lparr>FindZone = exFindZone,
      Next = (\<lambda>r. r\<lparr>Page := Page r + 1\<rparr>),
      Done = (\<lambda>r. Page r > 1 \<and> Page r > TotalPages r),
      NewEndpoint = (\<lambda>n t ts. Some \<lparr>DNSName = n, Targets = ts, RecordType = t, RecordTTL = 0\<rparr>),
      EnsureTrailingDot = exEnsureTrailingDot,
      SupportedRecordType = (\<lambda>t. t \<in> set [''A'', ''AAAA'', ''CNAME'', ''SRV'', ''TXT'', ''NS'']),
      IsConfigured = (\<lambda>ttl. ttl > 0),
      GetGetZoneScopeEnumValues = [''GLOBAL'', ''PRIVATE''],
      Expired = (\<lambda>c. cache_zones c = []),
      Reset = (\<lambda>c zs. c\<lparr>cache_zones := zs\<rparr>),
      rangeZones = (\<lambda>m. m),
      rangeChanges = (\<lambda>m. m)\<rparr>"

text \<open>
  A Cloudflare client that serves the tunnel configuration \<open>cfg\<close>, a single zone and a
  single page of records, and whose \<open>CreateDNSRecord\<close> answers \<open>createErr\<close>.
\<close>

definition exClient :: "error + TunnelConfiguration \<Rightarrow> error option \<Rightarrow> CloudFlareAPIClient" where
  "exClient cfg createErr =
     \<lparr>ZoneDetails = (\<lambda>tr z. Inr \<lparr>zone_ID = z, zone_Name = ''example.com''\<rparr>),
      ListZonesContext = (\<lambda>tr. Inr [\<lparr>zone_ID = ''zone1'', zone_Name = ''example.com''\<rparr>]),
      GetTunnelConfiguration = (\<lambda>tr a t. cfg),
      UpdateTunnelConfiguration = (\<lambda>tr a ps. None),
      ListDNSRecords = (\<lambda>tr z ri.
        Inr ([\<lparr>rec_ID = ''r1'', rec_Name = ''b.example.com'', rec_Type = ''CNAME'',
               rec_Content = ''tun.cfargotunnel.com'', rec_ZoneID = z\<rparr>],
             ri\<lparr>TotalPages := 1\<rparr>)),
      CreateDNSRecord = (\<lambda>tr z ps. createErr),
      UpdateDNSRecord = (\<lambda>tr z ps. None),
      DeleteDNSRecord = (\<lambda>tr z r. None)\<rparr>"

definition exProvider :: "error + TunnelConfiguration \<Rightarrow> error option \<Rightarrow> bool \<Rightarrow> CloudFlareTunnelProvider" where
  "exProvider cfg createErr dry =
     \<lparr>Client = exClient cfg createErr, domainFilter = (\<lambda>name. True), DryRun = dry,
      accountId = ''acct'', tunnelId = ''tun'', zoneIDFilter = [], DNSRecordsPerPage = 100\<rparr>"

definition exWorld :: world where
  "exWorld = \<lparr>calls = [], out = [], zoneNameIDMapper = Map.empty\<rparr>"

definition exRule :: "string \<Rightarrow> string \<Rightarrow> string \<Rightarrow> UnvalidatedIngressRule" where
  "exRule h pth svc = \<lparr>Hostname = h, Path = pth, Service = svc, OriginRequest = None\<rparr>"

definition exConfig :: "UnvalidatedIngressRule list \<Rightarrow> TunnelConfiguration" where
  "exConfig rs =
     \<lparr>Ingress = rs, WarpRouting = None,
      ConfigOriginRequest = \<lparr>NoTLSVerify = None, Http2Origin = None\<rparr>\<rparr>"

definition exEndpoint :: "string \<Rightarrow> string \<Rightarrow> string list \<Rightarrow> Endpoint" where
  "exEndpoint n t ts = \<lparr>DNSName = n, Targets = ts, RecordType = t, RecordTTL = 0\<rparr>"

definition noChanges :: Changes where
  "noChanges = \<lparr>Create = [], UpdateOld = [], UpdateNew = [], Delete = []\<rparr>"

text \<open>
  An OCI client that lists the zones \<open>zs\<close> on one page for the scope \<open>GLOBAL\<close> (or
  answers the error \<open>listErr\<close>) and whose patch fails for the zones of \<open>failing\<close> only.
\<close>

definition exOciClient :: "error + ZoneSummary list \<Rightarrow> string list \<Rightarrow> ociDNSClient" where
  "exOciClient listing failing =
     \<lparr>ListZones = (\<lambda>tr compartment scope page.
        case listing of
          Inl listErr \<Rightarrow> Inl listErr
        | Inr zs \<Rightarrow> Inr (if scope = ''GLOBAL'' then zs else [], None)),
      PatchZoneRecords = (\<lambda>tr compartment zoneID ops.
        if zoneID \<in> set failing then Some (''patch of '' @ zoneID @ '' refused'') else None)\<rparr>"

definition exOciProvider ::
  "error + ZoneSummary list \<Rightarrow> string list \<Rightarrow> (string \<Rightarrow> bool) \<Rightarrow> bool \<Rightarrow> OCIProvider" where
  "exOciProvider listing failing flt dry =
     \<lparr>client = exOciClient listing failing, CompartmentID = ''cmp'', oci_domainFilter = flt,
      oci_zoneIDFilter = (\<lambda>zoneID. True), zoneScope = [], dryRun = dry\<rparr>"

definition exOciWorld :: ociWorld where
  "exOciWorld =
     \<lparr>oci_calls = [], zoneCacheOf = \<lparr>cache_age = 0, cache_duration = 0, cache_zones = []\<rparr>\<rparr>"

definition exZones :: "ZoneSummary list" where
  "exZones =
     [\<lparr>zs_Id = ''zone1'', zs_Name = ''one.example''\<rparr>,
      \<lparr>zs_Id = ''zone2'', zs_Name = ''two.example''\<rparr>,
      \<lparr>zs_Id = ''zone3'', zs_Name = ''three.example''\<rparr>]"

section \<open>Properties of OrderedMap\<close>

lemma removeKeyLoop_remove1:
  "ks = pre @ rest \<Longrightarrow> h \<notin> set pre \<Longrightarrow> i = length pre \<Longrightarrow>
   removeKeyLoop h ks i rest = remove1 h ks"
proof (induction rest arbitrary: pre i)
  case Nil
  then show ?case by (simp add: remove1_idem)
next
  case (Cons v vs)
  show ?case
  proof (cases "v = h")
    case True
    with Cons.prems show ?thesis by (simp add: remove1_append)
  next
    case False
    have "removeKeyLoop h ks (Suc i) vs = remove1 h ks"
      using Cons.prems False by (intro Cons.IH [of "pre @ [v]"]) auto
    with False show ?thesis by simp
  qed
qed

lemma removeKey_remove1: "removeKey h ks = remove1 h ks"
  unfolding removeKey_def by (rule removeKeyLoop_remove1 [of _ "[]"]) auto

lemma keys_Add:
  "keys (Add n s) =
     (if Hostname s \<in> dom (data n) then remove1 (Hostname s) (keys n) @ [Hostname s]
      else keys n @ [Hostname s])"
  by (auto simp: Add_def removeKey_remove1 split: option.splits)

lemma data_Add: "data (Add n s) = (data n)(Hostname s \<mapsto> s)"
  by (simp add: Add_def split: option.splits)

lemma omInv_New: "omInv (NewOrderedMap cap)"
  by (simp add: omInv_def NewOrderedMap_def)

lemma omInv_Add: "omInv n \<Longrightarrow> omInv (Add n s)"
  unfolding omInv_def keys_Add data_Add
  by (auto simp: distinct_remove1 dom_def)

lemma omInv_foldl_Add: "omInv n \<Longrightarrow> omInv (foldl Add n rs)"
  by (induction rs arbitrary: n) (simp_all add: omInv_Add)

lemma remove1_filter_distinct: "distinct ks \<Longrightarrow> remove1 h ks = filter (\<lambda>k. k \<noteq> h) ks"
  by (induction ks) (auto simp: remove1_idem)

lemma Get_Add:
  assumes "omInv n"
  shows "Get (Add n s) = filter (\<lambda>r. Hostname r \<noteq> Hostname s) (Get n) @ [s]"
proof -
  have d: "distinct (keys n)" and k: "set (keys n) = dom (data n)"
    and v: "\<And>k v. data n k = Some v \<Longrightarrow> Hostname v = k"
    using assms by (auto simp: omInv_def)
  have hn: "\<And>k. k \<in> set (keys n) \<Longrightarrow> Hostname (lookupRule (data n) k) = k"
    using k v by (auto simp: lookupRule_def split: option.splits)
  have f: "filter (\<lambda>r. Hostname r \<noteq> Hostname s) (map (lookupRule (data n)) (keys n))
         = map (lookupRule (data n)) (filter (\<lambda>k. k \<noteq> Hostname s) (keys n))"
    using hn by (simp add: filter_map comp_def cong: filter_cong)
  have g: "map (lookupRule ((data n)(Hostname s \<mapsto> s))) (filter (\<lambda>k. k \<noteq> Hostname s) (keys n))
         = map (lookupRule (data n)) (filter (\<lambda>k. k \<noteq> Hostname s) (keys n))"
    by (simp add: lookupRule_def)
  have nf: "Hostname s \<notin> dom (data n) \<Longrightarrow> filter (\<lambda>k. k \<noteq> Hostname s) (keys n) = keys n"
    using k by (auto simp: filter_id_conv)
  show ?thesis
    unfolding Get_def keys_Add data_Add f
    using g nf d k by (auto simp: remove1_filter_distinct lookupRule_def)
qed

lemma lastAdds_snoc:
  "lastAdds (rs @ [r]) = filter (\<lambda>x. Hostname x \<noteq> Hostname r) (lastAdds rs) @ [r]"
  by (induction rs) auto

lemma Get_foldl_Add_New: "Get (foldl Add (NewOrderedMap cap) rs) = lastAdds rs"
proof (induction rs rule: rev_induct)
  case Nil
  show ?case by (simp add: Get_def NewOrderedMap_def)
next
  case (snoc r rs)
  have "omInv (foldl Add (NewOrderedMap cap) rs)"
    by (rule omInv_foldl_Add [OF omInv_New])
  then show ?case
    by (simp add: Get_Add snoc.IH lastAdds_snoc)
qed

lemma distinct_lastAdds: "distinct (map Hostname (lastAdds rs))"
proof (induction rs)
  case Nil
  show ?case by simp
next
  case (Cons r rs)
  have "set (lastAdds rs) \<subseteq> set rs" for rs
    by (induction rs) auto
  with Cons show ?case by auto
qed

lemma set_lastAdds: "set (map Hostname (lastAdds rs)) = set (map Hostname rs)"
  by (induction rs) auto

text \<open>
  C1. After any sequence \<open>rs\<close> of \<open>Add\<close> calls on a new map, \<open>Get\<close> returns exactly the
  rules of the sequence whose hostname is not added again later, in the order of those
  (most recent) calls; so every distinct hostname of the sequence is enumerated exactly
  once. One call appends an absent key to the order, takes a present key out of the
  order and appends it again, and stores the rule in both cases.
\<close>

theorem OrderedMap_Add_most_recent_order:
  "Get (foldl Add (NewOrderedMap cap) rs) = lastAdds rs \<and>
   distinct (map Hostname (Get (foldl Add (NewOrderedMap cap) rs))) \<and>
   set (map Hostname (Get (foldl Add (NewOrderedMap cap) rs))) = set (map Hostname rs) \<and>
   map Hostname (Get (foldl Add (NewOrderedMap cap) rs)) = remdups (map Hostname rs) \<and>
   keys (Add n s) =
     (if Hostname s \<in> dom (data n) then remove1 (Hostname s) (keys n) @ [Hostname s]
      else keys n @ [Hostname s]) \<and>
   data (Add n s) = (data n)(Hostname s \<mapsto> s)"
proof -
  have "map Hostname (lastAdds rs) = remdups (map Hostname rs)"
    by (induction rs) auto
  then show ?thesis
    using distinct_lastAdds [of rs] set_lastAdds [of rs]
    by (simp add: Get_foldl_Add_New keys_Add data_Add)
qed

theorem OrderedMap_Add_most_recent_order_witness:
  "Get (foldl Add (NewOrderedMap 10)
      [\<lparr>Hostname = ''test1'', Path = [], Service = ''a'', OriginRequest = None\<rparr>,
       \<lparr>Hostname = ''test2'', Path = [], Service = ''b'', OriginRequest = None\<rparr>,
       \<lparr>Hostname = ''test3'', Path = [], Service = ''c'', OriginRequest = None\<rparr>,
       \<lparr>Hostname = ''test1'', Path = [], Service = ''d'', OriginRequest = None\<rparr>])
   = [\<lparr>Hostname = ''test2'', Path = [], Service = ''b'', OriginRequest = None\<rparr>,
      \<lparr>Hostname = ''test3'', Path = [], Service = ''c'', OriginRequest = None\<rparr>,
      \<lparr>Hostname = ''test1'', Path = [], Service = ''d'', OriginRequest = None\<rparr>] \<and>
   keys (Add \<lparr>data = Map.empty, keys = []\<rparr>
      \<lparr>Hostname = ''test1'', Path = [], Service = ''a'', OriginRequest = None\<rparr>) = [''test1'']"
  using OrderedMap_Add_most_recent_order [of 10
      "[\<lparr>Hostname = ''test1'', Path = [], Service = ''a'', OriginRequest = None\<rparr>,
        \<lparr>Hostname = ''test2'', Path = [], Service = ''b'', OriginRequest = None\<rparr>,
        \<lparr>Hostname = ''test3'', Path = [], Service = ''c'', OriginRequest = None\<rparr>,
        \<lparr>Hostname = ''test1'', Path = [], Service = ''d'', OriginRequest = None\<rparr>]"
      "\<lparr>data = Map.empty, keys = []\<rparr>"
      "\<lparr>Hostname = ''test1'', Path = [], Service = ''a'', OriginRequest = None\<rparr>"]
  by simp

text \<open>
  C4. \<open>Update\<close> with a key that is not stored is \<open>Add\<close> with that key, so the key goes
  to the end of the order. \<open>Update\<close> with a stored key stores the new rule and leaves
  the order as it is: \<open>Get\<close> enumerates the same positions, with the new rule at the
  position of the key.
\<close>

theorem OrderedMap_Update_absent_present:
  "(data n (Hostname s) = None \<longrightarrow>
      Update n s = Add n s \<and> keys (Update n s) = keys n @ [Hostname s]) \<and>
   (data n (Hostname s) \<noteq> None \<longrightarrow>
      keys (Update n s) = keys n \<and>
      data (Update n s) = (data n)(Hostname s \<mapsto> s) \<and>
      Get (Update n s) =
        map (\<lambda>k. if k = Hostname s then s else lookupRule (data n) k) (keys n))"
  by (auto simp: Update_def Add_def Get_def lookupRule_def split: option.splits)

theorem OrderedMap_Update_absent_present_witness:
  "data (NewOrderedMap 3) (Hostname \<lparr>Hostname = ''test4'', Path = [], Service = ''d'', OriginRequest = None\<rparr>) = None \<and>
   keys (Update (NewOrderedMap 3)
      \<lparr>Hostname = ''test4'', Path = [], Service = ''d'', OriginRequest = None\<rparr>) = [''test4''] \<and>
   data (Add (Add (NewOrderedMap 3)
      \<lparr>Hostname = ''test1'', Path = [], Service = ''v1'', OriginRequest = None\<rparr>)
      \<lparr>Hostname = ''test2'', Path = [], Service = ''v2'', OriginRequest = None\<rparr>) ''test1'' \<noteq> None \<and>
   Get (Update (Add (Add (NewOrderedMap 3)
      \<lparr>Hostname = ''test1'', Path = [], Service = ''v1'', OriginRequest = None\<rparr>)
      \<lparr>Hostname = ''test2'', Path = [], Service = ''v2'', OriginRequest = None\<rparr>)
      \<lparr>Hostname = ''test1'', Path = [], Service = ''v4'', OriginRequest = None\<rparr>)
   = [\<lparr>Hostname = ''test1'', Path = [], Service = ''v4'', OriginRequest = None\<rparr>,
      \<lparr>Hostname = ''test2'', Path = [], Service = ''v2'', OriginRequest = None\<rparr>]"
  using OrderedMap_Update_absent_present [of "NewOrderedMap 3"
      "\<lparr>Hostname = ''test4'', Path = [], Service = ''d'', OriginRequest = None\<rparr>"]
    OrderedMap_Update_absent_present [of "Add (Add (NewOrderedMap 3)
      \<lparr>Hostname = ''test1'', Path = [], Service = ''v1'', OriginRequest = None\<rparr>)
      \<lparr>Hostname = ''test2'', Path = [], Service = ''v2'', OriginRequest = None\<rparr>"
      "\<lparr>Hostname = ''test1'', Path = [], Service = ''v4'', OriginRequest = None\<rparr>"]
  by (simp add: NewOrderedMap_def Add_def lookupRule_def)

section \<open>Properties of the Cloudflare Tunnel provider\<close>

lemmas ex_defs = exLibrary_def exFindZone_def exEnsureTrailingDot_def exProvider_def
      exClient_def exConfig_def exRule_def exWorld_def exEndpoint_def noChanges_def
      RecordTypeA_def RecordTypeCNAME_def

lemmas plan_defs = planChanges_def updateZoneIdMapper_def Zones_def zoneAdd_def
      listDNSRecordsWithAutoPagination_def listDNSRecordsLoop.simps println_def
      cfargotunnel_def convertHttps_def defaultOriginRequestConfig_def
      NewOrderedMap_def Add_def Update_def Remove_def Get_def lookupRule_def removeKey_def
      zeroRule_def Let_def

lemma recordsLoop_map:
  "recordsLoop L rs acc = acc @ map (\<lambda>c. NewEndpoint L (Hostname c) RecordTypeA [Service c]) rs"
  by (induction rs arbitrary: acc) auto

text \<open>
  C3, as the code has it. When the tunnel configuration is fetched, \<open>Records\<close> returns
  one endpoint for every ingress rule of the configuration, in the order of the rules,
  built by \<open>NewEndpoint\<close> from the hostname of the rule, the type A and the service of
  the rule; no rule is left out, the catch-all rule with its empty hostname included.
  The only call made is the fetch.
\<close>

theorem Records_one_endpoint_per_rule:
  "GetTunnelConfiguration (Client p) (calls w) (accountId p) (tunnelId p) = Inr configResult \<Longrightarrow>
   (\<exists>endpoints. fst (Records L p w) = Inr endpoints \<and>
      length endpoints = length (Ingress configResult) \<and>
      (\<forall>i < length (Ingress configResult).
         endpoints ! i =
           NewEndpoint L (Hostname (Ingress configResult ! i)) RecordTypeA
             [Service (Ingress configResult ! i)])) \<and>
   calls (snd (Records L p w)) = calls w @ [GetTunnelConfiguration_call (accountId p) (tunnelId p)]"
  by (simp add: Records_def Let_def recordsLoop_map)

theorem Records_one_endpoint_per_rule_witness:
  "GetTunnelConfiguration (Client (exProvider (Inr (exConfig [exRule ''a.example.com'' [] ''http://svc:80''])) None False))
     (calls exWorld) ''acct'' ''tun''
     = Inr (exConfig [exRule ''a.example.com'' [] ''http://svc:80'']) \<and>
   fst (Records exLibrary
      (exProvider (Inr (exConfig [exRule ''a.example.com'' [] ''http://svc:80''])) None False) exWorld)
     = Inr [Some \<lparr>DNSName = ''a.example.com'', Targets = [''http://svc:80''],
                  RecordType = ''A'', RecordTTL = 0\<rparr>]"
  using Records_one_endpoint_per_rule [of
      "exProvider (Inr (exConfig [exRule ''a.example.com'' [] ''http://svc:80''])) None False"
      exWorld "exConfig [exRule ''a.example.com'' [] ''http://svc:80'']" exLibrary]
  by (auto simp: ex_defs length_Suc_conv)

text \<open>
  The claim C3 as stated fails: for a configuration of one rule for \<open>a.example.com\<close>
  followed by the catch-all rule, \<open>Records\<close> returns two endpoints, the second one for
  the catch-all rule, with the empty name.
\<close>

theorem Records_catch_all_counterexample:
  "fst (Records exLibrary
      (exProvider (Inr (exConfig [exRule ''a.example.com'' [] ''http://svc:80'',
                                  exRule [] [] ''http_status:404''])) None False) exWorld)
   = Inr [Some \<lparr>DNSName = ''a.example.com'', Targets = [''http://svc:80''], RecordType = ''A'', RecordTTL = 0\<rparr>,
          Some \<lparr>DNSName = [], Targets = [''http_status:404''], RecordType = ''A'', RecordTTL = 0\<rparr>]"
  by (simp add: Records_def ex_defs)

subsection \<open>Loading the ingress rules\<close>

text \<open>
  C2 does not hold of the code. The fetched configuration below is one that Cloudflare
  accepts: a rule that matches a path on every hostname (so its hostname is empty), a
  rule for \<open>b.example.com\<close>, and the catch-all rule last. The first loop of
  \<open>ApplyChanges\<close> takes the path rule for the catch-all and ends at it: the rule for
  \<open>b.example.com\<close>, whose hostname is not empty, is not loaded into the ordered map, and
  the rule separated out is not the catch-all rule. With nothing to change and without
  \<open>DryRun\<close>, the configuration sent by \<open>UpdateTunnelConfiguration\<close> holds the path rule
  only, while \<open>Records\<close> on the same configuration returns an endpoint for each of the
  three rules.
\<close>

theorem ApplyChanges_ingress_rules_after_empty_hostname_lost:
  "loadIngress
     [exRule [] ''/static'' ''http://files:80'',
      exRule ''b.example.com'' [] ''http://b:80'',
      exRule [] [] ''http_status:404''] (NewOrderedMap 3) zeroRule
   = (NewOrderedMap 3, exRule [] ''/static'' ''http://files:80'') \<and>
   fst (the (planChanges exLibrary
      (exProvider (Inr (exConfig
          [exRule [] ''/static'' ''http://files:80'',
           exRule ''b.example.com'' [] ''http://b:80'',
           exRule [] [] ''http_status:404''])) None False) noChanges exWorld))
   = Inr \<lparr>ingressConfigs = NewOrderedMap 3,
          catchAll = exRule [] ''/static'' ''http://files:80'',
          tunnelConfigParam =
            \<lparr>TunnelID = ''tun'',
             Config = exConfig [exRule [] ''/static'' ''http://files:80'']\<rparr>,
          dnsCreateParams = [], dnsUpdateParams = [], dnsDeleteParams = []\<rparr> \<and>
   map_option fst (ApplyChanges exLibrary
      (exProvider (Inr (exConfig
          [exRule [] ''/static'' ''http://files:80'',
           exRule ''b.example.com'' [] ''http://b:80'',
           exRule [] [] ''http_status:404''])) None False) noChanges exWorld)
   = Some (Return None) \<and>
   map_option (calls \<circ> snd) (ApplyChanges exLibrary
      (exProvider (Inr (exConfig
          [exRule [] ''/static'' ''http://files:80'',
           exRule ''b.example.com'' [] ''http://b:80'',
           exRule [] [] ''http_status:404''])) None False) noChanges exWorld)
   = Some [ListZonesContext_call, GetTunnelConfiguration_call ''acct'' ''tun'',
           UpdateTunnelConfiguration_call ''acct''
             \<lparr>TunnelID = ''tun'',
              Config = exConfig [exRule [] ''/static'' ''http://files:80'']\<rparr>] \<and>
   fst (Records exLibrary
      (exProvider (Inr (exConfig
          [exRule [] ''/static'' ''http://files:80'',
           exRule ''b.example.com'' [] ''http://b:80'',
           exRule [] [] ''http_status:404''])) None False) exWorld)
   = Inr [Some \<lparr>DNSName = [], Targets = [''http://files:80''], RecordType = ''A'', RecordTTL = 0\<rparr>,
          Some \<lparr>DNSName = ''b.example.com'', Targets = [''http://b:80''], RecordType = ''A'',
                RecordTTL = 0\<rparr>,
          Some \<lparr>DNSName = [], Targets = [''http_status:404''], RecordType = ''A'',
                RecordTTL = 0\<rparr>]"
  by (simp add: ApplyChanges_def applyPlan_def Records_def plan_defs ex_defs)

subsection \<open>The calls a run makes before it changes anything\<close>

lemma listDNSRecordsLoop_world:
  assumes "listDNSRecordsLoop L c z params recs w = Some rw"
  shows "filter mutating (calls (snd rw)) = filter mutating (calls w) \<and> out (snd rw) = out w \<and>
   zoneNameIDMapper (snd rw) = zoneNameIDMapper w"
proof (rule listDNSRecordsLoop.raw_induct
    [where P = "\<lambda>L c z params recs w rw.
       filter mutating (calls (snd rw)) = filter mutating (calls w) \<and> out (snd rw) = out w \<and>
       zoneNameIDMapper (snd rw) = zoneNameIDMapper w", OF _ assms], goal_cases)
  case (1 loop L c z params recs w rw)
  show ?case
  proof (cases "ListDNSRecords c (calls w) z params")
    case (Inl err)
    with 1(2) show ?thesis by (auto simp: Let_def)
  next
    case (Inr pr)
    obtain pageRecords resultInfo where pr: "pr = (pageRecords, resultInfo)"
      by (cases pr)
    show ?thesis
    proof (cases "Done L (Next L resultInfo)")
      case True
      with 1(2) Inr pr show ?thesis by (auto simp: Let_def)
    next
      case False
      with 1(2) Inr pr have
        "loop L c z (Next L resultInfo) (recs @ pageRecords)
           (w\<lparr>calls := calls w @ [ListDNSRecords_call z params]\<rparr>) = Some rw"
        by (simp add: Let_def)
      from 1(1) [OF this] show ?thesis by simp
    qed
  qed
qed

lemma listDNSRecordsWithAutoPagination_world:
  "listDNSRecordsWithAutoPagination L p z w = Some (r, w') \<Longrightarrow>
   filter mutating (calls w') = filter mutating (calls w) \<and> out w' = out w \<and>
   zoneNameIDMapper w' = zoneNameIDMapper w"
  unfolding listDNSRecordsWithAutoPagination_def
  using listDNSRecordsLoop_world [where rw = "(r, w')"] by fastforce

lemma createLoop_calls:
  "createLoop L p es m ps w = (r, w') \<Longrightarrow> calls w' = calls w"
  by (induction L p es m ps w rule: createLoop.induct)
     (auto simp: Let_def println_def split: if_splits list.splits)

lemma updateLoop_calls:
  "updateLoop L p es m ps w = Some (r, w') \<Longrightarrow>
   filter mutating (calls w') = filter mutating (calls w)"
proof (induction L p es m ps w rule: updateLoop.induct)
  case (1 L p m ps w)
  then show ?case by simp
next
  case (2 L p desired rest m ps w)
  show ?case
  proof (cases "RecordType desired \<noteq> RecordTypeA")
    case True
    with 2 show ?thesis by simp
  next
    case notA: False
    show ?thesis
    proof (cases "Targets desired")
      case Nil
      with 2(4) notA show ?thesis by simp
    next
      case (Cons target ts)
      show ?thesis
      proof (cases "fst (FindZone L (zoneNameIDMapper w) (DNSName desired)) = []")
        case True
        with 2(2) [OF notA Cons refl refl True] 2(4) notA Cons show ?thesis
          by (simp add: Let_def println_def)
      next
        case False
        let ?z = "fst (FindZone L (zoneNameIDMapper w) (DNSName desired))"
        show ?thesis
        proof (cases "listDNSRecordsWithAutoPagination L p ?z w")
          case None
          with 2(4) notA Cons False show ?thesis by (simp add: Let_def)
        next
          case (Some rw)
          obtain lr w1 where rw: "rw = (lr, w1)" by (cases rw)
          have pw: "filter mutating (calls w1) = filter mutating (calls w)"
            using listDNSRecordsWithAutoPagination_world Some rw by blast
          show ?thesis
          proof (cases lr)
            case (Inl err)
            with 2(4) notA Cons False Some rw pw show ?thesis by (auto simp: Let_def)
          next
            case (Inr records)
            from 2(3) [OF notA Cons refl refl False Some [unfolded rw] refl Inr refl]
              2(4) notA Cons False Some rw Inr pw
            show ?thesis by (simp add: Let_def)
          qed
        qed
      qed
    qed
  qed
qed

lemma deleteLoop_calls:
  "deleteLoop L p es m ps w = Some (r, w') \<Longrightarrow>
   filter mutating (calls w') = filter mutating (calls w)"
proof (induction L p es m ps w rule: deleteLoop.induct)
  case (1 L p m ps w)
  then show ?case by simp
next
  case (2 L p deleteEndpoint rest m ps w)
  show ?case
  proof (cases "RecordType deleteEndpoint \<noteq> RecordTypeA")
    case True
    with 2 show ?thesis by simp
  next
    case notA: False
    show ?thesis
    proof (cases "fst (FindZone L (zoneNameIDMapper w) (DNSName deleteEndpoint)) = []")
      case True
      with 2(2) [OF notA refl refl True] 2(4) notA show ?thesis
        by (simp add: Let_def println_def)
    next
      case False
      let ?z = "fst (FindZone L (zoneNameIDMapper w) (DNSName deleteEndpoint))"
      show ?thesis
      proof (cases "listDNSRecordsWithAutoPagination L p ?z w")
        case None
        with 2(4) notA False show ?thesis by (simp add: Let_def)
      next
        case (Some rw)
        obtain lr w1 where rw: "rw = (lr, w1)" by (cases rw)
        have pw: "filter mutating (calls w1) = filter mutating (calls w)"
          using listDNSRecordsWithAutoPagination_world Some rw by blast
        show ?thesis
        proof (cases lr)
          case (Inl err)
          with 2(4) notA False Some rw pw show ?thesis by (auto simp: Let_def)
        next
          case (Inr records)
          from 2(3) [OF notA refl refl False Some [unfolded rw] refl Inr]
            2(4) notA False Some rw Inr pw
          show ?thesis by (simp add: Let_def)
        qed
      qed
    qed
  qed
qed

lemma zoneDetailsLoop_calls:
  "zoneDetailsLoop c ids res w = (r, w') \<Longrightarrow>
   filter mutating (calls w') = filter mutating (calls w)"
  by (induction c ids res w rule: zoneDetailsLoop.induct)
     (auto simp: Let_def split: sum.splits)

lemma updateZoneIdMapper_calls:
  "updateZoneIdMapper p w = (r, w') \<Longrightarrow>
   filter mutating (calls w') = filter mutating (calls w)"
  by (auto simp: updateZoneIdMapper_def Zones_def Let_def
      split: prod.splits option.splits sum.splits if_splits dest: zoneDetailsLoop_calls)

lemma planChanges_calls:
  assumes "planChanges L p changes w = Some (r, w')"
  shows "filter mutating (calls w') = filter mutating (calls w)"
proof (cases "updateZoneIdMapper p w")
  case (Pair e w1)
  note m1 = updateZoneIdMapper_calls [OF Pair]
  show ?thesis
  proof (cases e)
    case (Some err)
    with assms Pair m1 show ?thesis by (auto simp: planChanges_def)
  next
    case None
    let ?w2 = "w1\<lparr>calls := calls w1 @ [GetTunnelConfiguration_call (accountId p) (tunnelId p)]\<rparr>"
    have m2: "filter mutating (calls ?w2) = filter mutating (calls w)"
      using m1 by simp
    show ?thesis
    proof (cases "GetTunnelConfiguration (Client p) (calls w1) (accountId p) (tunnelId p)")
      case (Inl err)
      with assms Pair None m2 show ?thesis by (auto simp: planChanges_def Let_def)
    next
      case (Inr oldConfig)
      obtain ic0 ca where li: "loadIngress (Ingress oldConfig)
          (NewOrderedMap (int (length (Ingress oldConfig)))) zeroRule = (ic0, ca)"
        by (cases "loadIngress (Ingress oldConfig)
          (NewOrderedMap (int (length (Ingress oldConfig)))) zeroRule")
      obtain cr w3 where cl: "createLoop L p (Create changes) ic0 [] ?w2 = (cr, w3)"
        by (cases "createLoop L p (Create changes) ic0 [] ?w2")
      have m3: "filter mutating (calls w3) = filter mutating (calls w)"
        using createLoop_calls [OF cl] m2 by simp
      show ?thesis
      proof (cases cr)
        case (Inl x)
        with assms Pair None Inr li cl m3 show ?thesis
          by (auto simp: planChanges_def Let_def)
      next
        case crInr: (Inr icp)
        obtain ic1 creates where icp: "icp = (ic1, creates)" by (cases icp)
        show ?thesis
        proof (cases "updateLoop L p (UpdateNew changes) ic1 [] w3")
          case None
          with assms Pair \<open>e = None\<close> Inr li cl crInr icp show ?thesis
            by (auto simp: planChanges_def Let_def)
        next
          case (Some urw)
          obtain ur w4 where urw: "urw = (ur, w4)" by (cases urw)
          have m4: "filter mutating (calls w4) = filter mutating (calls w)"
            using updateLoop_calls [OF Some [unfolded urw]] m3 by simp
          show ?thesis
          proof (cases ur)
            case (Inl x)
            with assms Pair \<open>e = None\<close> Inr li cl crInr icp Some urw m4 show ?thesis
              by (auto simp: planChanges_def Let_def)
          next
            case urInr: (Inr iup)
            obtain ic2 updates where iup: "iup = (ic2, updates)" by (cases iup)
            show ?thesis
            proof (cases "deleteLoop L p (Delete changes) ic2 [] w4")
              case None
              with assms Pair \<open>e = None\<close> Inr li cl crInr icp Some urw urInr iup show ?thesis
                by (auto simp: planChanges_def Let_def)
            next
              case dSome: (Some drw)
              obtain dr w5 where drw: "drw = (dr, w5)" by (cases drw)
              have m5: "filter mutating (calls w5) = filter mutating (calls w)"
                using deleteLoop_calls [OF dSome [unfolded drw]] m4 by simp
              from assms Pair \<open>e = None\<close> Inr li cl crInr icp Some urw urInr iup dSome drw
              have "w' = w5"
                by (auto simp: planChanges_def Let_def split: sum.splits)
              with m5 show ?thesis by simp
            qed
          qed
        qed
      qed
    qed
  qed
qed

subsection \<open>The three queues\<close>

lemma upt_Suc_shift: "[0..<Suc n] = 0 # map Suc [0..<n]"
  by (simp add: upt_conv_Cons map_Suc_upt del: upt_Suc)

lemma createFailures_Cons:
  "createFailures c tr (q # ps) =
     failureLine ''create'' (CreateDNSRecord c tr (cp_ZoneID q) q) @
     createFailures c (tr @ [createCall q]) ps"
  unfolding createFailures_def length_Cons upt_Suc_shift
  by (simp add: comp_def)

lemma updateFailures_Cons:
  "updateFailures c tr (q # ps) =
     failureLine ''update'' (UpdateDNSRecord c tr (fst q) (snd q)) @
     updateFailures c (tr @ [updateCall q]) ps"
  unfolding updateFailures_def length_Cons upt_Suc_shift
  by (simp add: comp_def)

lemma deleteFailures_Cons:
  "deleteFailures c tr (q # ps) =
     failureLine ''delete'' (DeleteDNSRecord c tr (fst q) (snd q)) @
     deleteFailures c (tr @ [deleteCall q]) ps"
  unfolding deleteFailures_def length_Cons upt_Suc_shift
  by (simp add: comp_def)

lemma createRecords_eq:
  "createRecords c ps w =
     w\<lparr>calls := calls w @ map createCall ps, out := out w @ createFailures c (calls w) ps\<rparr>"
proof (induction ps arbitrary: w)
  case Nil
  show ?case by (simp add: createFailures_def)
next
  case (Cons q ps)
  show ?case
    by (cases "CreateDNSRecord c (calls w) (cp_ZoneID q) q")
       (simp_all add: Cons.IH createFailures_Cons failureLine_def createCall_def Let_def)
qed

lemma updateRecords_eq:
  "updateRecords c ps w =
     w\<lparr>calls := calls w @ map updateCall ps, out := out w @ updateFailures c (calls w) ps\<rparr>"
proof (induction ps arbitrary: w)
  case Nil
  show ?case by (simp add: updateFailures_def)
next
  case (Cons q ps)
  show ?case
    by (cases "UpdateDNSRecord c (calls w) (fst q) (snd q)")
       (simp_all add: Cons.IH updateFailures_Cons failureLine_def updateCall_def Let_def)
qed

lemma deleteRecords_eq:
  "deleteRecords c ps w =
     w\<lparr>calls := calls w @ map deleteCall ps, out := out w @ deleteFailures c (calls w) ps\<rparr>"
proof (induction ps arbitrary: w)
  case Nil
  show ?case by (simp add: deleteFailures_def)
next
  case (Cons q ps)
  show ?case
    by (cases "DeleteDNSRecord c (calls w) (fst q) (snd q)")
       (simp_all add: Cons.IH deleteFailures_Cons failureLine_def deleteCall_def Let_def)
qed

text \<open>
  C6. Without \<open>DryRun\<close>, once \<open>UpdateTunnelConfiguration\<close> has succeeded,
  \<open>ApplyChanges\<close> returns nil, whatever the client answers afterwards. The calls it
  makes after the push are exactly one call for every queued create, then one for every
  queued update, then one for every queued delete, each queue in its order; a call is
  made with all the calls before it already made, whether they failed or not. The lines
  written are one line for every call for which the client reports an error, in the
  order of the calls.
\<close>

theorem ApplyChanges_queues_run_independently:
  assumes "UpdateTunnelConfiguration (Client p) (calls w) (accountId p) (tunnelConfigParam pl) = None"
  shows "fst (applyPlan p pl w) = Return None \<and>
   calls (snd (applyPlan p pl w)) =
     calls w @ [UpdateTunnelConfiguration_call (accountId p) (tunnelConfigParam pl)] @
     map createCall (dnsCreateParams pl) @ map updateCall (dnsUpdateParams pl) @
     map deleteCall (dnsDeleteParams pl) \<and>
   out (snd (applyPlan p pl w)) =
     out w @
     createFailures (Client p)
       (calls w @ [UpdateTunnelConfiguration_call (accountId p) (tunnelConfigParam pl)])
       (dnsCreateParams pl) @
     updateFailures (Client p)
       (calls w @ [UpdateTunnelConfiguration_call (accountId p) (tunnelConfigParam pl)] @
        map createCall (dnsCreateParams pl))
       (dnsUpdateParams pl) @
     deleteFailures (Client p)
       (calls w @ [UpdateTunnelConfiguration_call (accountId p) (tunnelConfigParam pl)] @
        map createCall (dnsCreateParams pl) @ map updateCall (dnsUpdateParams pl))
       (dnsDeleteParams pl) \<and>
   (\<not> DryRun p \<and> planChanges L p changes w0 = Some (Inr pl, w) \<longrightarrow>
      ApplyChanges L p changes w0 = Some (Return None, snd (applyPlan p pl w)))"
proof -
  have a: "fst (applyPlan p pl w) = Return None"
    using assms by (simp add: applyPlan_def Let_def)
  have b: "snd (applyPlan p pl w) =
      deleteRecords (Client p) (dnsDeleteParams pl)
        (updateRecords (Client p) (dnsUpdateParams pl)
          (createRecords (Client p) (dnsCreateParams pl)
            (w\<lparr>calls := calls w @
               [UpdateTunnelConfiguration_call (accountId p) (tunnelConfigParam pl)]\<rparr>)))"
    using assms by (simp add: applyPlan_def Let_def)
  have c: "\<not> DryRun p \<and> planChanges L p changes w0 = Some (Inr pl, w) \<longrightarrow>
      ApplyChanges L p changes w0 = Some (Return None, snd (applyPlan p pl w))"
    using a by (auto simp: ApplyChanges_def prod_eq_iff)
  have d: "calls (snd (applyPlan p pl w)) =
     calls w @ [UpdateTunnelConfiguration_call (accountId p) (tunnelConfigParam pl)] @
     map createCall (dnsCreateParams pl) @ map updateCall (dnsUpdateParams pl) @
     map deleteCall (dnsDeleteParams pl)"
    unfolding b by (simp add: createRecords_eq updateRecords_eq deleteRecords_eq)
  have e: "out (snd (applyPlan p pl w)) =
     out w @
     createFailures (Client p)
       (calls w @ [UpdateTunnelConfiguration_call (accountId p) (tunnelConfigParam pl)])
       (dnsCreateParams pl) @
     updateFailures (Client p)
       (calls w @ [UpdateTunnelConfiguration_call (accountId p) (tunnelConfigParam pl)] @
        map createCall (dnsCreateParams pl))
       (dnsUpdateParams pl) @
     deleteFailures (Client p)
       (calls w @ [UpdateTunnelConfiguration_call (accountId p) (tunnelConfigParam pl)] @
        map createCall (dnsCreateParams pl) @ map updateCall (dnsUpdateParams pl))
       (dnsDeleteParams pl)"
    unfolding b by (simp add: createRecords_eq updateRecords_eq deleteRecords_eq)
  from a d e c show ?thesis by (intro conjI)
qed

theorem ApplyChanges_queues_run_independently_witness:
  "\<exists>pl w.
     planChanges exLibrary
       (exProvider (Inr (exConfig [exRule [] [] ''http_status:404''])) (Some ''boom'') False)
       \<lparr>Create = [exEndpoint ''a.example.com'' ''A'' [''10.0.0.1'']], UpdateOld = [],
        UpdateNew = [exEndpoint ''b.example.com'' ''A'' [''10.0.0.2'']],
        Delete = [exEndpoint ''c.example.com'' ''A'' [''10.0.0.3'']]\<rparr> exWorld = Some (Inr pl, w) \<and>
     \<not> DryRun (exProvider (Inr (exConfig [exRule [] [] ''http_status:404''])) (Some ''boom'') False) \<and>
     UpdateTunnelConfiguration
       (Client (exProvider (Inr (exConfig [exRule [] [] ''http_status:404''])) (Some ''boom'') False))
       (calls w) ''acct'' (tunnelConfigParam pl) = None \<and>
     ApplyChanges exLibrary
       (exProvider (Inr (exConfig [exRule [] [] ''http_status:404''])) (Some ''boom'') False)
       \<lparr>Create = [exEndpoint ''a.example.com'' ''A'' [''10.0.0.1'']], UpdateOld = [],
        UpdateNew = [exEndpoint ''b.example.com'' ''A'' [''10.0.0.2'']],
        Delete = [exEndpoint ''c.example.com'' ''A'' [''10.0.0.3'']]\<rparr> exWorld
       = Some (Return None,
           snd (applyPlan (exProvider (Inr (exConfig [exRule [] [] ''http_status:404''])) (Some ''boom'') False) pl w)) \<and>
     drop (Suc (length (calls w)))
       (calls (snd (applyPlan (exProvider (Inr (exConfig [exRule [] [] ''http_status:404''])) (Some ''boom'') False) pl w)))
       = [CreateDNSRecord_call ''zone1''
            \<lparr>cp_Name = ''a.example.com'', cp_TTL = 1, cp_Proxied = Some True,
             cp_Type = ''CNAME'', cp_Content = ''tun.cfargotunnel.com'', cp_ZoneID = ''zone1''\<rparr>,
          UpdateDNSRecord_call ''zone1''
            \<lparr>up_ID = ''r1'', up_Name = ''b.example.com'', up_TTL = 1, up_Proxied = Some True,
             up_Type = ''CNAME'', up_Content = ''tun.cfargotunnel.com''\<rparr>,
          DeleteDNSRecord_call ''zone1'' []] \<and>
     out (snd (applyPlan (exProvider (Inr (exConfig [exRule [] [] ''http_status:404''])) (Some ''boom'') False) pl w))
       = [''failed to create dns record: boom'' @ [CHR 0x0A]]"
proof -
  let ?P = "exProvider (Inr (exConfig [exRule [] [] ''http_status:404''])) (Some ''boom'') False"
  let ?CH = "\<lparr>Create = [exEndpoint ''a.example.com'' ''A'' [''10.0.0.1'']], UpdateOld = [],
        UpdateNew = [exEndpoint ''b.example.com'' ''A'' [''10.0.0.2'']],
        Delete = [exEndpoint ''c.example.com'' ''A'' [''10.0.0.3'']]\<rparr>"
  let ?r = "planChanges exLibrary ?P ?CH exWorld"
  let ?pl = "projr (fst (the ?r))"
  let ?w = "snd (the ?r)"
  have ev: "?r = Some (Inr ?pl, ?w)"
    by (simp add: plan_defs ex_defs)
  have creates: "dnsCreateParams ?pl =
      [\<lparr>cp_Name = ''a.example.com'', cp_TTL = 1, cp_Proxied = Some True,
        cp_Type = ''CNAME'', cp_Content = ''tun.cfargotunnel.com'', cp_ZoneID = ''zone1''\<rparr>]"
    by (simp add: plan_defs ex_defs)
  have updates: "dnsUpdateParams ?pl =
      [(''zone1'', \<lparr>up_ID = ''r1'', up_Name = ''b.example.com'', up_TTL = 1, up_Proxied = Some True,
             up_Type = ''CNAME'', up_Content = ''tun.cfargotunnel.com''\<rparr>)]"
    by (simp add: plan_defs ex_defs)
  have deletes: "dnsDeleteParams ?pl = [(''zone1'', [])]"
    by (simp add: plan_defs ex_defs)
  have outw: "out ?w = []"
    by (simp add: plan_defs ex_defs)
  have push: "UpdateTunnelConfiguration (Client ?P) (calls ?w) (accountId ?P) (tunnelConfigParam ?pl) = None"
    by (simp add: ex_defs)
  have dry: "\<not> DryRun ?P"
    by (simp add: ex_defs)
  have acct: "accountId ?P = ''acct''"
    by (simp add: ex_defs)
  have cl: "Client ?P = exClient (Inr (exConfig [exRule [] [] ''http_status:404''])) (Some ''boom'')"
    by (simp add: ex_defs)
  note t = ApplyChanges_queues_run_independently [OF push, of exLibrary ?CH exWorld]
  show ?thesis
    apply (rule exI [of _ ?pl])
    apply (rule exI [of _ ?w])
    using t ev dry push
    by (simp add: creates updates deletes outw acct cl createCall_def updateCall_def deleteCall_def
        createFailures_def updateFailures_def deleteFailures_def failureLine_def exClient_def)
qed

subsection \<open>The index into the targets\<close>

lemma createLoop_no_panic:
  "\<forall>e \<in> set es. RecordType e = RecordTypeA \<longrightarrow> Targets e \<noteq> [] \<Longrightarrow>
   \<exists>r. fst (createLoop L p es m ps w) = Inr r"
  by (induction L p es m ps w rule: createLoop.induct)
     (auto simp: Let_def split: list.splits)

lemma createLoop_panic:
  "\<exists>e \<in> set es. RecordType e = RecordTypeA \<and> Targets e = [] \<Longrightarrow>
   fst (createLoop L p es m ps w) = Inl Panic"
  by (induction es arbitrary: m ps w) (auto simp: Let_def split: list.splits)

lemma updateLoop_no_panic:
  "\<forall>e \<in> set es. RecordType e = RecordTypeA \<longrightarrow> Targets e \<noteq> [] \<Longrightarrow>
   updateLoop L p es m ps w \<noteq> Some (Inl Panic, w')"
  by (induction L p es m ps w rule: updateLoop.induct)
     (auto simp: Let_def split: list.splits option.splits sum.splits prod.splits)

lemma deleteLoop_no_panic:
  "deleteLoop L p es m ps w \<noteq> Some (Inl Panic, w')"
  by (induction L p es m ps w rule: deleteLoop.induct)
     (auto simp: Let_def split: list.splits option.splits sum.splits prod.splits)

lemma applyPlan_Return: "\<exists>e. fst (applyPlan p pl w) = Return e"
  by (simp add: applyPlan_def Let_def split: option.splits)

lemma planChanges_no_panic:
  assumes "\<forall>e \<in> set (Create changes) \<union> set (UpdateNew changes).
             RecordType e = RecordTypeA \<longrightarrow> Targets e \<noteq> []"
  shows "planChanges L p changes w \<noteq> Some (Inl Panic, w')"
proof
  assume pc: "planChanges L p changes w = Some (Inl Panic, w')"
  have c: "\<And>m ps w. \<exists>r. fst (createLoop L p (Create changes) m ps w) = Inr r"
    using assms by (intro createLoop_no_panic) auto
  have u: "\<And>m ps w w'. updateLoop L p (UpdateNew changes) m ps w \<noteq> Some (Inl Panic, w')"
    using assms by (intro updateLoop_no_panic) auto
  obtain e w1 where z: "updateZoneIdMapper p w = (e, w1)"
    by (cases "updateZoneIdMapper p w")
  show False
  proof (cases e)
    case (Some err)
    with pc z show False by (simp add: planChanges_def)
  next
    case None
    let ?w2 = "w1\<lparr>calls := calls w1 @ [GetTunnelConfiguration_call (accountId p) (tunnelId p)]\<rparr>"
    show False
    proof (cases "GetTunnelConfiguration (Client p) (calls w1) (accountId p) (tunnelId p)")
      case (Inl err)
      with pc z None show False by (simp add: planChanges_def Let_def)
    next
      case (Inr oldConfig)
      obtain ic0 ca where li: "loadIngress (Ingress oldConfig)
          (NewOrderedMap (int (length (Ingress oldConfig)))) zeroRule = (ic0, ca)"
        by (cases "loadIngress (Ingress oldConfig)
          (NewOrderedMap (int (length (Ingress oldConfig)))) zeroRule")
      obtain cr w3 where cl: "createLoop L p (Create changes) ic0 [] ?w2 = (cr, w3)"
        by (cases "createLoop L p (Create changes) ic0 [] ?w2")
      from c [of ic0 "[]" ?w2] cl obtain ic1 creates where cr: "cr = Inr (ic1, creates)"
        by auto
      from pc z None Inr li cl cr u [of ic1 "[]" w3 w']
        deleteLoop_no_panic [of L p "Delete changes" _ "[]" _ w']
      show False
        by (auto simp: planChanges_def Let_def split: option.splits sum.splits prod.splits)
    qed
  qed
qed

lemma planChanges_panic_Create:
  assumes "updateZoneIdMapper p w = (None, w1)"
    and "GetTunnelConfiguration (Client p) (calls w1) (accountId p) (tunnelId p) = Inr oldConfig"
    and "\<exists>e \<in> set (Create changes). RecordType e = RecordTypeA \<and> Targets e = []"
  shows "\<exists>w'. planChanges L p changes w = Some (Inl Panic, w')"
proof -
  let ?w2 = "w1\<lparr>calls := calls w1 @ [GetTunnelConfiguration_call (accountId p) (tunnelId p)]\<rparr>"
  obtain ic0 ca where li: "loadIngress (Ingress oldConfig)
      (NewOrderedMap (int (length (Ingress oldConfig)))) zeroRule = (ic0, ca)"
    by (cases "loadIngress (Ingress oldConfig)
      (NewOrderedMap (int (length (Ingress oldConfig)))) zeroRule")
  obtain cr w3 where cl: "createLoop L p (Create changes) ic0 [] ?w2 = (cr, w3)"
    by (cases "createLoop L p (Create changes) ic0 [] ?w2")
  from createLoop_panic [OF assms(3), of L p ic0 "[]" ?w2] cl have "cr = Inl Panic"
    by simp
  with assms(1,2) li cl show ?thesis
    by (simp add: planChanges_def Let_def)
qed

lemma planChanges_panic_UpdateNew:
  assumes "updateZoneIdMapper p w = (None, w1)"
    and "GetTunnelConfiguration (Client p) (calls w1) (accountId p) (tunnelId p) = Inr oldConfig"
    and "\<forall>e \<in> set (Create changes). RecordType e = RecordTypeA \<longrightarrow> Targets e \<noteq> []"
    and "UpdateNew changes = e # rest" and "RecordType e = RecordTypeA" and "Targets e = []"
  shows "\<exists>w'. planChanges L p changes w = Some (Inl Panic, w')"
proof -
  let ?w2 = "w1\<lparr>calls := calls w1 @ [GetTunnelConfiguration_call (accountId p) (tunnelId p)]\<rparr>"
  obtain ic0 ca where li: "loadIngress (Ingress oldConfig)
      (NewOrderedMap (int (length (Ingress oldConfig)))) zeroRule = (ic0, ca)"
    by (cases "loadIngress (Ingress oldConfig)
      (NewOrderedMap (int (length (Ingress oldConfig)))) zeroRule")
  obtain cr w3 where cl: "createLoop L p (Create changes) ic0 [] ?w2 = (cr, w3)"
    by (cases "createLoop L p (Create changes) ic0 [] ?w2")
  from createLoop_no_panic [OF assms(3), of L p ic0 "[]" ?w2] cl
  obtain ic1 creates where cr: "cr = Inr (ic1, creates)"
    by auto
  from assms(1,2,4,5,6) li cl cr show ?thesis
    by (simp add: planChanges_def Let_def)
qed

text \<open>
  C10. \<open>ApplyChanges\<close> reads \<open>Targets[0]\<close> of every endpoint of type A of
  \<open>changes.Create\<close> and \<open>changes.UpdateNew\<close> without a test. If every such endpoint
  has a target, no run of \<open>ApplyChanges\<close> panics. If the zones and the tunnel
  configuration are fetched and an endpoint of type A of \<open>changes.Create\<close> has no
  target, the run panics; so does a run in which the creates are fine and the first
  endpoint of \<open>changes.UpdateNew\<close> is of type A and has no target.
\<close>

theorem ApplyChanges_Targets_unguarded:
  "((\<forall>e \<in> set (Create changes) \<union> set (UpdateNew changes).
        RecordType e = RecordTypeA \<longrightarrow> Targets e \<noteq> []) \<longrightarrow>
      (\<forall>w'. ApplyChanges L p changes w \<noteq> Some (Panic, w'))) \<and>
   (updateZoneIdMapper p w = (None, w1) \<and>
    GetTunnelConfiguration (Client p) (calls w1) (accountId p) (tunnelId p) = Inr oldConfig \<and>
    (\<exists>e \<in> set (Create changes). RecordType e = RecordTypeA \<and> Targets e = []) \<longrightarrow>
      (\<exists>w'. ApplyChanges L p changes w = Some (Panic, w'))) \<and>
   (updateZoneIdMapper p w = (None, w1) \<and>
    GetTunnelConfiguration (Client p) (calls w1) (accountId p) (tunnelId p) = Inr oldConfig \<and>
    (\<forall>e \<in> set (Create changes). RecordType e = RecordTypeA \<longrightarrow> Targets e \<noteq> []) \<and>
    UpdateNew changes = u # rest \<and> RecordType u = RecordTypeA \<and> Targets u = [] \<longrightarrow>
      (\<exists>w'. ApplyChanges L p changes w = Some (Panic, w')))"
proof (intro conjI impI allI)
  fix w'
  assume pre: "\<forall>e \<in> set (Create changes) \<union> set (UpdateNew changes).
        RecordType e = RecordTypeA \<longrightarrow> Targets e \<noteq> []"
  show "ApplyChanges L p changes w \<noteq> Some (Panic, w')"
  proof
    assume a: "ApplyChanges L p changes w = Some (Panic, w')"
    show False
    proof (cases "planChanges L p changes w")
      case None
      with a show False by (simp add: ApplyChanges_def)
    next
      case (Some rw)
      obtain r w2 where rw: "rw = (r, w2)" by (cases rw)
      show False
      proof (cases r)
        case (Inl x)
        with a Some rw planChanges_no_panic [OF pre, of L p w w'] show False
          by (auto simp: ApplyChanges_def)
      next
        case (Inr pl)
        with a Some rw applyPlan_Return [of p pl w2] show False
          by (auto simp: ApplyChanges_def prod_eq_iff split: if_splits)
      qed
    qed
  qed
next
  assume "updateZoneIdMapper p w = (None, w1) \<and>
    GetTunnelConfiguration (Client p) (calls w1) (accountId p) (tunnelId p) = Inr oldConfig \<and>
    (\<exists>e \<in> set (Create changes). RecordType e = RecordTypeA \<and> Targets e = [])"
  then obtain w' where "planChanges L p changes w = Some (Inl Panic, w')"
    using planChanges_panic_Create [of p w w1 oldConfig changes L] by blast
  then show "\<exists>w'. ApplyChanges L p changes w = Some (Panic, w')"
    by (simp add: ApplyChanges_def)
next
  assume "updateZoneIdMapper p w = (None, w1) \<and>
    GetTunnelConfiguration (Client p) (calls w1) (accountId p) (tunnelId p) = Inr oldConfig \<and>
    (\<forall>e \<in> set (Create changes). RecordType e = RecordTypeA \<longrightarrow> Targets e \<noteq> []) \<and>
    UpdateNew changes = u # rest \<and> RecordType u = RecordTypeA \<and> Targets u = []"
  then obtain w' where "planChanges L p changes w = Some (Inl Panic, w')"
    using planChanges_panic_UpdateNew [of p w w1 oldConfig changes u rest L] by blast
  then show "\<exists>w'. ApplyChanges L p changes w = Some (Panic, w')"
    by (simp add: ApplyChanges_def)
qed

theorem ApplyChanges_Targets_unguarded_witness:
  "RecordType (exEndpoint ''a.example.com'' ''A'' [''10.0.0.1'']) = RecordTypeA \<and>
   Targets (exEndpoint ''a.example.com'' ''A'' [''10.0.0.1'']) \<noteq> [] \<and>
   RecordType (exEndpoint ''b.example.com'' ''A'' [''10.0.0.2'']) = RecordTypeA \<and>
   Targets (exEndpoint ''b.example.com'' ''A'' [''10.0.0.2'']) \<noteq> [] \<and>
   (\<forall>w'. ApplyChanges exLibrary
       (exProvider (Inr (exConfig [exRule [] [] ''http_status:404''])) None False)
       \<lparr>Create = [exEndpoint ''a.example.com'' ''A'' [''10.0.0.1'']], UpdateOld = [],
        UpdateNew = [exEndpoint ''b.example.com'' ''A'' [''10.0.0.2'']], Delete = []\<rparr>
       exWorld \<noteq> Some (Panic, w')) \<and>
   updateZoneIdMapper (exProvider (Inr (exConfig [exRule [] [] ''http_status:404''])) None False) exWorld
     = (None, snd (updateZoneIdMapper
          (exProvider (Inr (exConfig [exRule [] [] ''http_status:404''])) None False) exWorld)) \<and>
   RecordType (exEndpoint ''a.example.com'' ''A'' []) = RecordTypeA \<and>
   Targets (exEndpoint ''a.example.com'' ''A'' []) = [] \<and>
   (\<exists>w'. ApplyChanges exLibrary
       (exProvider (Inr (exConfig [exRule [] [] ''http_status:404''])) None False)
       \<lparr>Create = [exEndpoint ''a.example.com'' ''A'' []], UpdateOld = [],
        UpdateNew = [], Delete = []\<rparr> exWorld = Some (Panic, w')) \<and>
   (\<exists>w'. ApplyChanges exLibrary
       (exProvider (Inr (exConfig [exRule [] [] ''http_status:404''])) None False)
       \<lparr>Create = [], UpdateOld = [],
        UpdateNew = [exEndpoint ''b.example.com'' ''A'' []], Delete = []\<rparr> exWorld = Some (Panic, w'))"
proof -
  let ?cfg = "exConfig [exRule [] [] ''http_status:404'']"
  let ?P = "exProvider (Inr ?cfg) None False"
  let ?ok = "\<lparr>Create = [exEndpoint ''a.example.com'' ''A'' [''10.0.0.1'']], UpdateOld = [],
        UpdateNew = [exEndpoint ''b.example.com'' ''A'' [''10.0.0.2'']], Delete = []\<rparr>"
  let ?c = "\<lparr>Create = [exEndpoint ''a.example.com'' ''A'' []], UpdateOld = [],
        UpdateNew = [], Delete = []\<rparr>"
  let ?u = "\<lparr>Create = [], UpdateOld = [],
        UpdateNew = [exEndpoint ''b.example.com'' ''A'' []], Delete = []\<rparr>"
  let ?w1 = "snd (updateZoneIdMapper ?P exWorld)"
  have z: "updateZoneIdMapper ?P exWorld = (None, ?w1)"
    by (simp add: updateZoneIdMapper_def Zones_def ex_defs)
  have g: "GetTunnelConfiguration (Client ?P) (calls ?w1) (accountId ?P) (tunnelId ?P) = Inr ?cfg"
    by (simp add: ex_defs)
  have pre: "\<forall>e \<in> set (Create ?ok) \<union> set (UpdateNew ?ok).
        RecordType e = RecordTypeA \<longrightarrow> Targets e \<noteq> []"
    by (simp add: ex_defs)
  have c: "\<exists>e \<in> set (Create ?c). RecordType e = RecordTypeA \<and> Targets e = []"
    by (simp add: ex_defs)
  have u: "(\<forall>e \<in> set (Create ?u). RecordType e = RecordTypeA \<longrightarrow> Targets e \<noteq> []) \<and>
    UpdateNew ?u = exEndpoint ''b.example.com'' ''A'' [] # [] \<and>
    RecordType (exEndpoint ''b.example.com'' ''A'' []) = RecordTypeA \<and>
    Targets (exEndpoint ''b.example.com'' ''A'' []) = []"
    by (simp add: ex_defs)
  from ApplyChanges_Targets_unguarded
    [where changes = ?ok and L = exLibrary and p = ?P and w = exWorld] pre
  have 1: "\<forall>w'. ApplyChanges exLibrary ?P ?ok exWorld \<noteq> Some (Panic, w')"
    by blast
  from ApplyChanges_Targets_unguarded
    [where changes = ?c and L = exLibrary and p = ?P and w = exWorld and ?w1.0 = ?w1
       and oldConfig = ?cfg] z g c
  have 2: "\<exists>w'. ApplyChanges exLibrary ?P ?c exWorld = Some (Panic, w')"
    by blast
  from ApplyChanges_Targets_unguarded
    [where changes = ?u and L = exLibrary and p = ?P and w = exWorld and ?w1.0 = ?w1
       and oldConfig = ?cfg and u = "exEndpoint ''b.example.com'' ''A'' []" and rest = "[]"] z g u
  have 3: "\<exists>w'. ApplyChanges exLibrary ?P ?u exWorld = Some (Panic, w')"
    by blast
  from z 1 2 3 show ?thesis
    by (simp add: ex_defs)
qed

subsection \<open>Dry run\<close>

lemma createLoop_single:
  assumes "RecordType e = RecordTypeA" and "Targets e = t # ts"
  shows "\<exists>ps w'. createLoop L p [e] m [] w =
       (Inr (Add m \<lparr>Hostname = DNSName e, Path = [], Service = convertHttps t,
                    OriginRequest = Some defaultOriginRequestConfig\<rparr>, ps), w') \<and>
     calls w' = calls w"
  using assms by (simp add: Let_def println_def)

text \<open>
  C9. With \<open>DryRun\<close> set, a run of \<open>ApplyChanges\<close> that ends, for any changes and
  whatever the client answers, has made none of the calls \<open>UpdateTunnelConfiguration\<close>,
  \<open>CreateDNSRecord\<close>, \<open>UpdateDNSRecord\<close> and \<open>DeleteDNSRecord\<close>. Given one endpoint
  of type A to create and nothing to update or delete, the run ends. In the scenario of
  the claim, where the zones and the tunnel configuration are fetched and the endpoint
  has a target, the run assembles the ingress list (the loaded rules with the rule of the
  endpoint added, followed by the catch-all rule) and returns nil, having made the
  fetching calls only.
\<close>

theorem ApplyChanges_dry_run:
  "(DryRun p \<and> ApplyChanges L p changes w = Some (x, w') \<longrightarrow>
      filter mutating (calls w') = filter mutating (calls w)) \<and>
   (DryRun p \<and> Create changes = [e] \<and> UpdateNew changes = [] \<and> Delete changes = [] \<and>
    RecordType e = RecordTypeA \<longrightarrow>
      (\<exists>y v. ApplyChanges L p changes w = Some (y, v))) \<and>
   (DryRun p \<and> Create changes = [e] \<and> UpdateNew changes = [] \<and> Delete changes = [] \<and>
    RecordType e = RecordTypeA \<and> Targets e = t # ts \<and>
    updateZoneIdMapper p w = (None, w1) \<and>
    GetTunnelConfiguration (Client p) (calls w1) (accountId p) (tunnelId p) = Inr oldConfig \<longrightarrow>
      (\<exists>pl v.
         planChanges L p changes w = Some (Inr pl, v) \<and>
         Ingress (Config (tunnelConfigParam pl)) =
           Get (Add (fst (loadIngress (Ingress oldConfig)
                            (NewOrderedMap (int (length (Ingress oldConfig)))) zeroRule))
                  \<lparr>Hostname = DNSName e, Path = [], Service = convertHttps t,
                   OriginRequest = Some defaultOriginRequestConfig\<rparr>) @
           [snd (loadIngress (Ingress oldConfig)
                   (NewOrderedMap (int (length (Ingress oldConfig)))) zeroRule)] \<and>
         ApplyChanges L p changes w = Some (Return None, v) \<and>
         calls v = calls w1 @ [GetTunnelConfiguration_call (accountId p) (tunnelId p)]))"
proof (intro conjI impI)
  assume a: "DryRun p \<and> ApplyChanges L p changes w = Some (x, w')"
  show "filter mutating (calls w') = filter mutating (calls w)"
  proof (cases "planChanges L p changes w")
    case None
    with a show ?thesis by (simp add: ApplyChanges_def)
  next
    case (Some rw)
    obtain r v where rw: "rw = (r, v)" by (cases rw)
    from a Some rw have "v = w'"
      by (auto simp: ApplyChanges_def split: sum.splits)
    with planChanges_calls [OF Some [unfolded rw]] show ?thesis by simp
  qed
next
  assume a: "DryRun p \<and> Create changes = [e] \<and> UpdateNew changes = [] \<and> Delete changes = [] \<and>
    RecordType e = RecordTypeA"
  then have "planChanges L p changes w \<noteq> None"
    by (auto simp: planChanges_def Let_def
        split: prod.splits option.splits sum.splits list.splits)
  then show "\<exists>y v. ApplyChanges L p changes w = Some (y, v)"
    by (auto simp: ApplyChanges_def split: sum.splits)
next
  assume a: "DryRun p \<and> Create changes = [e] \<and> UpdateNew changes = [] \<and> Delete changes = [] \<and>
    RecordType e = RecordTypeA \<and> Targets e = t # ts \<and>
    updateZoneIdMapper p w = (None, w1) \<and>
    GetTunnelConfiguration (Client p) (calls w1) (accountId p) (tunnelId p) = Inr oldConfig"
  let ?w2 = "w1\<lparr>calls := calls w1 @ [GetTunnelConfiguration_call (accountId p) (tunnelId p)]\<rparr>"
  let ?li = "loadIngress (Ingress oldConfig)
      (NewOrderedMap (int (length (Ingress oldConfig)))) zeroRule"
  let ?rule = "\<lparr>Hostname = DNSName e, Path = [], Service = convertHttps t,
                   OriginRequest = Some defaultOriginRequestConfig\<rparr>"
  from a createLoop_single [of e t ts L p "fst ?li" ?w2]
  obtain ps v where cl: "createLoop L p [e] (fst ?li) [] ?w2 = (Inr (Add (fst ?li) ?rule, ps), v)"
    and cv: "calls v = calls ?w2"
    by blast
  let ?pl = "\<lparr>ingressConfigs = Add (fst ?li) ?rule, catchAll = snd ?li,
      tunnelConfigParam =
        \<lparr>TunnelID = tunnelId p,
         Config = oldConfig\<lparr>Ingress := Get (Add (fst ?li) ?rule) @ [snd ?li]\<rparr>\<rparr>,
      dnsCreateParams = ps, dnsUpdateParams = [], dnsDeleteParams = []\<rparr>"
  have pc: "planChanges L p changes w = Some (Inr ?pl, v)"
  proof -
    obtain ic0 ca where li: "?li = (ic0, ca)"
      by (cases ?li)
    from cl li have "createLoop L p [e] ic0 [] ?w2 = (Inr (Add ic0 ?rule, ps), v)"
      by (simp del: createLoop.simps)
    with a li show ?thesis
      by (simp add: planChanges_def Let_def del: createLoop.simps)
  qed
  then have ac: "ApplyChanges L p changes w = Some (Return None, v)"
    using a by (simp add: ApplyChanges_def)
  show "\<exists>pl v.
         planChanges L p changes w = Some (Inr pl, v) \<and>
         Ingress (Config (tunnelConfigParam pl)) =
           Get (Add (fst ?li) ?rule) @ [snd ?li] \<and>
         ApplyChanges L p changes w = Some (Return None, v) \<and>
         calls v = calls w1 @ [GetTunnelConfiguration_call (accountId p) (tunnelId p)]"
    apply (rule exI [of _ ?pl])
    apply (rule exI [of _ v])
    using pc ac cv by simp
qed

theorem ApplyChanges_dry_run_witness:
  "DryRun (exProvider (Inr (exConfig [exRule ''b.example.com'' [] ''http://b:80'',
                                      exRule [] [] ''http_status:404''])) None True) \<and>
   RecordType (exEndpoint ''a.example.com'' ''A'' [''10.0.0.1'']) = RecordTypeA \<and>
   Targets (exEndpoint ''a.example.com'' ''A'' [''10.0.0.1'']) = ''10.0.0.1'' # [] \<and>
   updateZoneIdMapper
     (exProvider (Inr (exConfig [exRule ''b.example.com'' [] ''http://b:80'',
                                 exRule [] [] ''http_status:404''])) None True) exWorld
     = (None, snd (updateZoneIdMapper
          (exProvider (Inr (exConfig [exRule ''b.example.com'' [] ''http://b:80'',
                                      exRule [] [] ''http_status:404''])) None True) exWorld)) \<and>
   (\<exists>pl v.
      planChanges exLibrary
        (exProvider (Inr (exConfig [exRule ''b.example.com'' [] ''http://b:80'',
                                    exRule [] [] ''http_status:404''])) None True)
        \<lparr>Create = [exEndpoint ''a.example.com'' ''A'' [''10.0.0.1'']], UpdateOld = [],
         UpdateNew = [], Delete = []\<rparr> exWorld = Some (Inr pl, v) \<and>
      Ingress (Config (tunnelConfigParam pl)) =
        [exRule ''b.example.com'' [] ''http://b:80'',
         \<lparr>Hostname = ''a.example.com'', Path = [], Service = ''https://10.0.0.1:443'',
          OriginRequest = Some \<lparr>NoTLSVerify = Some True, Http2Origin = Some True\<rparr>\<rparr>,
         exRule [] [] ''http_status:404''] \<and>
      ApplyChanges exLibrary
        (exProvider (Inr (exConfig [exRule ''b.example.com'' [] ''http://b:80'',
                                    exRule [] [] ''http_status:404''])) None True)
        \<lparr>Create = [exEndpoint ''a.example.com'' ''A'' [''10.0.0.1'']], UpdateOld = [],
         UpdateNew = [], Delete = []\<rparr> exWorld = Some (Return None, v) \<and>
      calls v = [ListZonesContext_call, GetTunnelConfiguration_call ''acct'' ''tun''] \<and>
      filter mutating (calls v) = [])"
proof -
  let ?cfg = "exConfig [exRule ''b.example.com'' [] ''http://b:80'', exRule [] [] ''http_status:404'']"
  let ?P = "exProvider (Inr ?cfg) None True"
  let ?e = "exEndpoint ''a.example.com'' ''A'' [''10.0.0.1'']"
  let ?CH = "\<lparr>Create = [?e], UpdateOld = [], UpdateNew = [], Delete = []\<rparr>"
  let ?w1 = "snd (updateZoneIdMapper ?P exWorld)"
  have z: "updateZoneIdMapper ?P exWorld = (None, ?w1)"
    by (simp add: updateZoneIdMapper_def Zones_def ex_defs)
  have c1: "calls ?w1 = [ListZonesContext_call]"
    by (simp add: updateZoneIdMapper_def Zones_def ex_defs)
  have g: "GetTunnelConfiguration (Client ?P) (calls ?w1) (accountId ?P) (tunnelId ?P) = Inr ?cfg"
    by (simp add: ex_defs)
  have h: "DryRun ?P \<and> Create ?CH = [?e] \<and> UpdateNew ?CH = [] \<and> Delete ?CH = [] \<and>
      RecordType ?e = RecordTypeA \<and> Targets ?e = ''10.0.0.1'' # []"
    by (simp add: ex_defs)
  note t = ApplyChanges_dry_run [where p = ?P and L = exLibrary and changes = ?CH and w = exWorld
      and e = ?e and t = "''10.0.0.1''" and ts = "[]" and ?w1.0 = ?w1 and oldConfig = ?cfg]
  from t h z g obtain pl v where
    pc: "planChanges exLibrary ?P ?CH exWorld = Some (Inr pl, v)" and
    ing: "Ingress (Config (tunnelConfigParam pl)) =
           Get (Add (fst (loadIngress (Ingress ?cfg)
                            (NewOrderedMap (int (length (Ingress ?cfg)))) zeroRule))
                  \<lparr>Hostname = DNSName ?e, Path = [], Service = convertHttps ''10.0.0.1'',
                   OriginRequest = Some defaultOriginRequestConfig\<rparr>) @
           [snd (loadIngress (Ingress ?cfg)
                   (NewOrderedMap (int (length (Ingress ?cfg)))) zeroRule)]" and
    ac: "ApplyChanges exLibrary ?P ?CH exWorld = Some (Return None, v)" and
    cv: "calls v = calls ?w1 @ [GetTunnelConfiguration_call (accountId ?P) (tunnelId ?P)]"
    by blast
  from t [of "Return None" v] h ac have m: "filter mutating (calls v) = filter mutating (calls exWorld)"
    by blast
  have ing': "Ingress (Config (tunnelConfigParam pl)) =
        [exRule ''b.example.com'' [] ''http://b:80'',
         \<lparr>Hostname = ''a.example.com'', Path = [], Service = ''https://10.0.0.1:443'',
          OriginRequest = Some \<lparr>NoTLSVerify = Some True, Http2Origin = Some True\<rparr>\<rparr>,
         exRule [] [] ''http_status:404'']"
    unfolding ing by (simp add: plan_defs ex_defs)
  show ?thesis
    using h z pc ing' ac cv c1 m by (simp add: ex_defs)
qed

section \<open>Properties of the OCI provider\<close>

lemmas oci_ex_defs = exOciClient_def exOciProvider_def exOciWorld_def exZones_def

lemmas oci_defs = OCI_ApplyChanges_def changeOperations_def newFilteredRecordOperations_def
      newRecordOperation_def ociRecordTTL_def OCI_zones_def addPaginatedZones_def
      addPaginatedZonesLoop.simps addZones_def operationsByZone_def patchCall_def zoneAdd_def
      Let_def

subsection \<open>Record operations\<close>

lemma newFilteredRecordOperationsLoop_excluded:
  "\<forall>e \<in> set es. \<not> oci_domainFilter p (DNSName e) \<Longrightarrow>
   newFilteredRecordOperationsLoop L p es opType ops = Inr ops"
  by (induction es arbitrary: ops) auto

lemma newFilteredRecordOperationsLoop_map:
  "\<forall>e \<in> set es. oci_domainFilter p (DNSName e) \<and> RecordType e = RecordTypeCNAME \<longrightarrow> Targets e \<noteq> [] \<Longrightarrow>
   \<exists>new. newFilteredRecordOperationsLoop L p es opType ops = Inr (ops @ new) \<and>
     map Inr new = map (\<lambda>e. newRecordOperation L e opType)
                     (filter (\<lambda>e. oci_domainFilter p (DNSName e)) es)"
proof (induction es arbitrary: ops)
  case Nil
  show ?case by simp
next
  case (Cons e es)
  show ?case
  proof (cases "oci_domainFilter p (DNSName e)")
    case False
    with Cons show ?thesis by simp
  next
    case True
    with Cons.prems have "RecordType e = RecordTypeCNAME \<longrightarrow> Targets e \<noteq> []"
      by simp
    then have "\<exists>op. newRecordOperation L e opType = Inr op"
      by (cases "Targets e") (auto simp: newRecordOperation_def)
    then obtain op where op: "newRecordOperation L e opType = Inr op" ..
    from Cons.IH [of "ops @ [op]"] Cons.prems obtain new where
      "newFilteredRecordOperationsLoop L p es opType (ops @ [op]) = Inr ((ops @ [op]) @ new)"
      "map Inr new = map (\<lambda>e. newRecordOperation L e opType)
                     (filter (\<lambda>e. oci_domainFilter p (DNSName e)) es)"
      by auto
    with True op show ?thesis
      by (intro exI [of _ "op # new"]) simp
  qed
qed

text \<open>
  C7, as the code has it. An endpoint that, if it is a CNAME, has a target is mapped by
  \<open>newRecordOperation\<close> to one record operation: its rdata is the targets of the
  endpoint joined by a single space, where for a CNAME the first target, and no other, is
  replaced by its form with a trailing dot (so the rdata of a CNAME with one target is
  that target with its trailing dot); its TTL is the TTL of the endpoint when that is
  configured and 300 otherwise. \<open>newFilteredRecordOperations\<close> returns, in order, exactly
  the operations of the endpoints that pass the domain filter, one for each.
\<close>

theorem OCI_newRecordOperation_rdata_ttl:
  "((RecordType ep = RecordTypeCNAME \<longrightarrow> Targets ep \<noteq> []) \<longrightarrow>
      newRecordOperation L ep opType =
        Inr \<lparr>Domain = DNSName ep,
             Rdata = join (if RecordType ep = RecordTypeCNAME
                           then EnsureTrailingDot L (hd (Targets ep)) # tl (Targets ep)
                           else Targets ep) '' '',
             Ttl = (if IsConfigured L (RecordTTL ep) then RecordTTL ep else 300),
             Rtype = RecordType ep,
             Operation = opType\<rparr>) \<and>
   (RecordType ep = RecordTypeCNAME \<and> Targets ep = [t] \<longrightarrow>
      map_sum id Rdata (newRecordOperation L ep opType) = Inr (EnsureTrailingDot L t)) \<and>
   ((\<forall>e \<in> set endpoints.
        oci_domainFilter p (DNSName e) \<and> RecordType e = RecordTypeCNAME \<longrightarrow> Targets e \<noteq> []) \<longrightarrow>
      (\<exists>ops. newFilteredRecordOperations L p endpoints opType = Inr ops \<and>
         map Inr ops = map (\<lambda>e. newRecordOperation L e opType)
                         (filter (\<lambda>e. oci_domainFilter p (DNSName e)) endpoints)))"
proof (intro conjI impI)
  assume "RecordType ep = RecordTypeCNAME \<longrightarrow> Targets ep \<noteq> []"
  then show "newRecordOperation L ep opType =
        Inr \<lparr>Domain = DNSName ep,
             Rdata = join (if RecordType ep = RecordTypeCNAME
                           then EnsureTrailingDot L (hd (Targets ep)) # tl (Targets ep)
                           else Targets ep) '' '',
             Ttl = (if IsConfigured L (RecordTTL ep) then RecordTTL ep else 300),
             Rtype = RecordType ep,
             Operation = opType\<rparr>"
    by (cases "Targets ep") (auto simp: newRecordOperation_def ociRecordTTL_def)
next
  assume "RecordType ep = RecordTypeCNAME \<and> Targets ep = [t]"
  then show "map_sum id Rdata (newRecordOperation L ep opType) = Inr (EnsureTrailingDot L t)"
    by (simp add: newRecordOperation_def)
next
  assume "\<forall>e \<in> set endpoints.
        oci_domainFilter p (DNSName e) \<and> RecordType e = RecordTypeCNAME \<longrightarrow> Targets e \<noteq> []"
  from newFilteredRecordOperationsLoop_map [OF this, of L opType "[]"]
  show "\<exists>ops. newFilteredRecordOperations L p endpoints opType = Inr ops \<and>
         map Inr ops = map (\<lambda>e. newRecordOperation L e opType)
                         (filter (\<lambda>e. oci_domainFilter p (DNSName e)) endpoints)"
    by (simp add: newFilteredRecordOperations_def)
qed

theorem OCI_newRecordOperation_rdata_ttl_witness:
  "RecordType (exEndpoint ''www.one.example'' ''CNAME'' [''target.example.com'']) = RecordTypeCNAME \<and>
   Targets (exEndpoint ''www.one.example'' ''CNAME'' [''target.example.com'']) = [''target.example.com''] \<and>
   newRecordOperation exLibrary
     (exEndpoint ''www.one.example'' ''CNAME'' [''target.example.com''])
     RecordOperationOperationAdd
   = Inr \<lparr>Domain = ''www.one.example'', Rdata = ''target.example.com.'', Ttl = 300,
          Rtype = ''CNAME'', Operation = RecordOperationOperationAdd\<rparr> \<and>
   newFilteredRecordOperations exLibrary
     (exOciProvider (Inr exZones) [] (\<lambda>n. n \<noteq> ''skip.one.example'') False)
     [exEndpoint ''www.one.example'' ''CNAME'' [''target.example.com''],
      exEndpoint ''skip.one.example'' ''A'' [''10.0.0.9''],
      \<lparr>DNSName = ''api.two.example'', Targets = [''10.0.0.1'', ''10.0.0.2''],
       RecordType = ''A'', RecordTTL = 60\<rparr>]
     RecordOperationOperationRemove
   = Inr [\<lparr>Domain = ''www.one.example'', Rdata = ''target.example.com.'', Ttl = 300,
           Rtype = ''CNAME'', Operation = RecordOperationOperationRemove\<rparr>,
          \<lparr>Domain = ''api.two.example'', Rdata = ''10.0.0.1 10.0.0.2'', Ttl = 60,
           Rtype = ''A'', Operation = RecordOperationOperationRemove\<rparr>]"
proof -
  let ?e = "exEndpoint ''www.one.example'' ''CNAME'' [''target.example.com'']"
  let ?P = "exOciProvider (Inr exZones) [] (\<lambda>n. n \<noteq> ''skip.one.example'') False"
  let ?es = "[?e, exEndpoint ''skip.one.example'' ''A'' [''10.0.0.9''],
      \<lparr>DNSName = ''api.two.example'', Targets = [''10.0.0.1'', ''10.0.0.2''],
       RecordType = ''A'', RecordTTL = 60\<rparr>]"
  have h1: "RecordType ?e = RecordTypeCNAME \<longrightarrow> Targets ?e \<noteq> []"
    by (simp add: ex_defs)
  have h2: "RecordType ?e = RecordTypeCNAME \<and> Targets ?e = [''target.example.com'']"
    by (simp add: ex_defs)
  have h3: "\<forall>e \<in> set ?es.
        oci_domainFilter ?P (DNSName e) \<and> RecordType e = RecordTypeCNAME \<longrightarrow> Targets e \<noteq> []"
    by (simp add: ex_defs)
  note t = OCI_newRecordOperation_rdata_ttl [where ep = ?e and L = exLibrary and p = ?P
      and endpoints = ?es and t = "''target.example.com''"]
  from t [of RecordOperationOperationAdd] h1
  have a: "newRecordOperation exLibrary ?e RecordOperationOperationAdd
     = Inr \<lparr>Domain = ''www.one.example'', Rdata = ''target.example.com.'', Ttl = 300,
          Rtype = ''CNAME'', Operation = RecordOperationOperationAdd\<rparr>"
    by (simp add: ex_defs)
  from t [of RecordOperationOperationRemove] h3 obtain ops where
    b: "newFilteredRecordOperations exLibrary ?P ?es RecordOperationOperationRemove = Inr ops" and
    c: "map Inr ops = map (\<lambda>e. newRecordOperation exLibrary e RecordOperationOperationRemove)
                         (filter (\<lambda>e. oci_domainFilter ?P (DNSName e)) ?es)"
    by blast
  from c have "(map Inr ops :: (exit + RecordOperation) list) =
      map Inr [\<lparr>Domain = ''www.one.example'', Rdata = ''target.example.com.'', Ttl = 300,
           Rtype = ''CNAME'', Operation = RecordOperationOperationRemove\<rparr>,
          \<lparr>Domain = ''api.two.example'', Rdata = ''10.0.0.1 10.0.0.2'', Ttl = 60,
           Rtype = ''A'', Operation = RecordOperationOperationRemove\<rparr>]"
    by (simp add: ex_defs exOciProvider_def newRecordOperation_def ociRecordTTL_def)
  then have "ops = [\<lparr>Domain = ''www.one.example'', Rdata = ''target.example.com.'', Ttl = 300,
           Rtype = ''CNAME'', Operation = RecordOperationOperationRemove\<rparr>,
          \<lparr>Domain = ''api.two.example'', Rdata = ''10.0.0.1 10.0.0.2'', Ttl = 60,
           Rtype = ''A'', Operation = RecordOperationOperationRemove\<rparr>]"
    by (simp only: inj_map_eq_map [OF inj_Inr])
  with a b h2 show ?thesis by simp
qed

text \<open>
  The claim C7 as stated fails for a CNAME endpoint with two targets: the second target
  goes into the rdata as it is, without a trailing dot.
\<close>

theorem OCI_newRecordOperation_counterexample:
  "newRecordOperation exLibrary
     (exEndpoint ''www.one.example'' ''CNAME'' [''a.example.com'', ''b.example.com''])
     RecordOperationOperationAdd
   = Inr \<lparr>Domain = ''www.one.example'', Rdata = ''a.example.com. b.example.com'', Ttl = 300,
          Rtype = ''CNAME'', Operation = RecordOperationOperationAdd\<rparr> \<and>
   join (map (EnsureTrailingDot exLibrary) [''a.example.com'', ''b.example.com'']) '' ''
   = ''a.example.com. b.example.com.''"
  by (simp add: newRecordOperation_def ociRecordTTL_def exLibrary_def exEnsureTrailingDot_def
      exEndpoint_def RecordTypeCNAME_def)

subsection \<open>No operations\<close>

text \<open>
  C8, as the code has it. When the change set yields no record operation,
  \<open>ApplyChanges\<close> returns nil and leaves the calls and the zone cache as they are; this
  is so when the domain filter excludes every endpoint of the four lists. The record type
  of an endpoint plays no part.
\<close>

theorem OCI_ApplyChanges_no_operations:
  "(changeOperations L p changes = Inr [] \<longrightarrow>
      OCI_ApplyChanges L p changes w = Some (Return None, w)) \<and>
   ((\<forall>e \<in> set (Create changes) \<union> set (UpdateNew changes) \<union> set (UpdateOld changes) \<union>
          set (Delete changes). \<not> oci_domainFilter p (DNSName e)) \<longrightarrow>
      changeOperations L p changes = Inr [] \<and>
      OCI_ApplyChanges L p changes w = Some (Return None, w))"
proof (intro conjI impI)
  assume "changeOperations L p changes = Inr []"
  then show "OCI_ApplyChanges L p changes w = Some (Return None, w)"
    by (simp add: OCI_ApplyChanges_def)
next
  assume a: "\<forall>e \<in> set (Create changes) \<union> set (UpdateNew changes) \<union> set (UpdateOld changes) \<union>
          set (Delete changes). \<not> oci_domainFilter p (DNSName e)"
  then have "\<And>es t. es \<in> {Create changes, UpdateNew changes, UpdateOld changes, Delete changes} \<Longrightarrow>
      newFilteredRecordOperations L p es t = Inr []"
    unfolding newFilteredRecordOperations_def
    by (intro newFilteredRecordOperationsLoop_excluded) auto
  then show c: "changeOperations L p changes = Inr []"
    by (simp add: changeOperations_def)
  then show "OCI_ApplyChanges L p changes w = Some (Return None, w)"
    by (simp add: OCI_ApplyChanges_def)
qed

theorem OCI_ApplyChanges_no_operations_witness:
  "changeOperations exLibrary (exOciProvider (Inr exZones) [] (\<lambda>n. False) False)
     \<lparr>Create = [exEndpoint ''www.one.example'' ''A'' [''10.0.0.1'']],
      UpdateOld = [exEndpoint ''old.one.example'' ''A'' [''10.0.0.2'']],
      UpdateNew = [exEndpoint ''old.one.example'' ''A'' [''10.0.0.3'']],
      Delete = [exEndpoint ''gone.one.example'' ''CNAME'' []]\<rparr> = Inr [] \<and>
   OCI_ApplyChanges exLibrary (exOciProvider (Inr exZones) [] (\<lambda>n. False) False)
     \<lparr>Create = [exEndpoint ''www.one.example'' ''A'' [''10.0.0.1'']],
      UpdateOld = [exEndpoint ''old.one.example'' ''A'' [''10.0.0.2'']],
      UpdateNew = [exEndpoint ''old.one.example'' ''A'' [''10.0.0.3'']],
      Delete = [exEndpoint ''gone.one.example'' ''CNAME'' []]\<rparr> exOciWorld
   = Some (Return None, exOciWorld) \<and>
   oci_calls exOciWorld = []"
proof -
  let ?P = "exOciProvider (Inr exZones) [] (\<lambda>n. False) False"
  let ?CH = "\<lparr>Create = [exEndpoint ''www.one.example'' ''A'' [''10.0.0.1'']],
      UpdateOld = [exEndpoint ''old.one.example'' ''A'' [''10.0.0.2'']],
      UpdateNew = [exEndpoint ''old.one.example'' ''A'' [''10.0.0.3'']],
      Delete = [exEndpoint ''gone.one.example'' ''CNAME'' []]\<rparr>"
  have h: "\<forall>e \<in> set (Create ?CH) \<union> set (UpdateNew ?CH) \<union> set (UpdateOld ?CH) \<union>
          set (Delete ?CH). \<not> oci_domainFilter ?P (DNSName e)"
    by (simp add: exOciProvider_def)
  from OCI_ApplyChanges_no_operations [of exLibrary ?P ?CH exOciWorld] h
  show ?thesis by (simp add: exOciWorld_def)
qed

text \<open>
  The claim C8 as stated fails for a change set whose only endpoint has a record type
  that is not supported and a name that passes the domain filter: \<open>ApplyChanges\<close> makes
  an operation of it, lists the zones and patches the zone of the endpoint.
\<close>

theorem OCI_ApplyChanges_unsupported_type_counterexample:
  "\<not> SupportedRecordType exLibrary ''HINFO'' \<and>
   map_option fst
     (OCI_ApplyChanges exLibrary (exOciProvider (Inr exZones) [] (\<lambda>n. True) False)
        \<lparr>Create = [exEndpoint ''www.one.example'' ''HINFO'' [''x'']], UpdateOld = [],
         UpdateNew = [], Delete = []\<rparr> exOciWorld) = Some (Return None) \<and>
   map_option (oci_calls \<circ> snd)
     (OCI_ApplyChanges exLibrary (exOciProvider (Inr exZones) [] (\<lambda>n. True) False)
        \<lparr>Create = [exEndpoint ''www.one.example'' ''HINFO'' [''x'']], UpdateOld = [],
         UpdateNew = [], Delete = []\<rparr> exOciWorld)
   = Some [ListZones_call ''cmp'' ''GLOBAL'' None, ListZones_call ''cmp'' ''PRIVATE'' None,
           PatchZoneRecords_call ''cmp'' ''zone1''
             [\<lparr>Domain = ''www.one.example'', Rdata = ''x'', Ttl = 300, Rtype = ''HINFO'',
               Operation = RecordOperationOperationAdd\<rparr>]]"
  by (simp add: oci_defs oci_ex_defs ex_defs)

subsection \<open>A failing patch\<close>

lemma patchesSucceed_Cons:
  "patchesSucceed p tr (zo # zs) \<longleftrightarrow>
     PatchZoneRecords (client p) tr (CompartmentID p) (fst zo) (snd zo) = None \<and>
     patchesSucceed p (tr @ [patchCall p zo]) zs"
  unfolding patchesSucceed_def length_Cons upt_Suc_shift
  by (simp add: list.pred_map comp_def)

lemma patchLoop_append:
  "patchesSucceed p (oci_calls w) pre \<Longrightarrow>
   patchLoop p (pre @ rest) w =
     patchLoop p rest (w\<lparr>oci_calls := oci_calls w @ map (patchCall p) pre\<rparr>)"
proof (induction pre arbitrary: w)
  case Nil
  show ?case by simp
next
  case (Cons zo pre)
  from Cons.prems have
    ok: "PatchZoneRecords (client p) (oci_calls w) (CompartmentID p) (fst zo) (snd zo) = None" and
    rest: "patchesSucceed p (oci_calls w @ [patchCall p zo]) pre"
    by (simp_all add: patchesSucceed_Cons)
  from Cons.IH [of "w\<lparr>oci_calls := oci_calls w @ [patchCall p zo]\<rparr>"] rest ok
  show ?case by (simp add: Let_def)
qed

text \<open>
  C5. In the loop over the zones, when the patches of the zones \<open>pre\<close> visited first
  succeed and the patch of the next zone \<open>zo\<close> fails with \<open>err\<close>, the loop ends with
  \<open>err\<close> and the calls made are the patches of \<open>pre\<close> and of \<open>zo\<close>: none for the
  zones \<open>post\<close> that remain, and none that undoes a patch already made. \<open>ApplyChanges\<close>,
  when it has operations, has resolved the zones and is not a dry run, returns that very
  error and has made, after the zone listing, those calls only.
\<close>

theorem OCI_patch_failure_aborts:
  "(patchesSucceed p (oci_calls w) pre \<and>
    PatchZoneRecords (client p) (oci_calls w @ map (patchCall p) pre)
      (CompartmentID p) (fst zo) (snd zo) = Some err \<longrightarrow>
      patchLoop p (pre @ zo # post) w =
        (Some err, w\<lparr>oci_calls := oci_calls w @ map (patchCall p) (pre @ [zo])\<rparr>)) \<and>
   (changeOperations L p changes = Inr ops \<and> ops \<noteq> [] \<and>
    OCI_zones L p w = Some (Inr zones, w') \<and> \<not> dryRun p \<and>
    rangeChanges L (operationsByZone L zones ops) = pre @ zo # post \<and>
    patchesSucceed p (oci_calls w') pre \<and>
    PatchZoneRecords (client p) (oci_calls w' @ map (patchCall p) pre)
      (CompartmentID p) (fst zo) (snd zo) = Some err \<longrightarrow>
      OCI_ApplyChanges L p changes w =
        Some (Return (Some err),
              w'\<lparr>oci_calls := oci_calls w' @ map (patchCall p) (pre @ [zo])\<rparr>))"
proof -
  have loop: "patchLoop p (pre @ zo # post) v =
        (Some err, v\<lparr>oci_calls := oci_calls v @ map (patchCall p) (pre @ [zo])\<rparr>)"
    if "patchesSucceed p (oci_calls v) pre"
      and "PatchZoneRecords (client p) (oci_calls v @ map (patchCall p) pre)
        (CompartmentID p) (fst zo) (snd zo) = Some err" for v
    using that by (simp add: patchLoop_append Let_def)
  show ?thesis
  proof (intro conjI impI)
    assume "patchesSucceed p (oci_calls w) pre \<and>
      PatchZoneRecords (client p) (oci_calls w @ map (patchCall p) pre)
        (CompartmentID p) (fst zo) (snd zo) = Some err"
    then show "patchLoop p (pre @ zo # post) w =
        (Some err, w\<lparr>oci_calls := oci_calls w @ map (patchCall p) (pre @ [zo])\<rparr>)"
      using loop [of w] by blast
  next
    assume a: "changeOperations L p changes = Inr ops \<and> ops \<noteq> [] \<and>
      OCI_zones L p w = Some (Inr zones, w') \<and> \<not> dryRun p \<and>
      rangeChanges L (operationsByZone L zones ops) = pre @ zo # post \<and>
      patchesSucceed p (oci_calls w') pre \<and>
      PatchZoneRecords (client p) (oci_calls w' @ map (patchCall p) pre)
        (CompartmentID p) (fst zo) (snd zo) = Some err"
    then have "patchLoop p (pre @ zo # post) w' =
        (Some err, w'\<lparr>oci_calls := oci_calls w' @ map (patchCall p) (pre @ [zo])\<rparr>)"
      using loop [of w'] by blast
    with a show "OCI_ApplyChanges L p changes w =
        Some (Return (Some err),
              w'\<lparr>oci_calls := oci_calls w' @ map (patchCall p) (pre @ [zo])\<rparr>)"
      by (simp add: OCI_ApplyChanges_def Let_def)
  qed
qed

theorem OCI_patch_failure_aborts_witness:
  "\<exists>ops zones w' pre zo post.
     changeOperations exLibrary (exOciProvider (Inr exZones) [''zone2''] (\<lambda>n. True) False)
       \<lparr>Create = [exEndpoint ''www.one.example'' ''A'' [''10.0.0.1''],
                  exEndpoint ''www.two.example'' ''A'' [''10.0.0.2''],
                  exEndpoint ''www.three.example'' ''A'' [''10.0.0.3'']],
        UpdateOld = [], UpdateNew = [], Delete = []\<rparr> = Inr ops \<and>
     ops \<noteq> [] \<and>
     OCI_zones exLibrary (exOciProvider (Inr exZones) [''zone2''] (\<lambda>n. True) False) exOciWorld
       = Some (Inr zones, w') \<and>
     \<not> dryRun (exOciProvider (Inr exZones) [''zone2''] (\<lambda>n. True) False) \<and>
     rangeChanges exLibrary (operationsByZone exLibrary zones ops) = pre @ zo # post \<and>
     map fst pre = [''zone1''] \<and> fst zo = ''zone2'' \<and> map fst post = [''zone3''] \<and>
     patchesSucceed (exOciProvider (Inr exZones) [''zone2''] (\<lambda>n. True) False) (oci_calls w') pre \<and>
     PatchZoneRecords (client (exOciProvider (Inr exZones) [''zone2''] (\<lambda>n. True) False))
       (oci_calls w' @ map (patchCall (exOciProvider (Inr exZones) [''zone2''] (\<lambda>n. True) False)) pre)
       ''cmp'' (fst zo) (snd zo) = Some ''patch of zone2 refused'' \<and>
     OCI_ApplyChanges exLibrary (exOciProvider (Inr exZones) [''zone2''] (\<lambda>n. True) False)
       \<lparr>Create = [exEndpoint ''www.one.example'' ''A'' [''10.0.0.1''],
                  exEndpoint ''www.two.example'' ''A'' [''10.0.0.2''],
                  exEndpoint ''www.three.example'' ''A'' [''10.0.0.3'']],
        UpdateOld = [], UpdateNew = [], Delete = []\<rparr> exOciWorld
       = Some (Return (Some ''patch of zone2 refused''),
               w'\<lparr>oci_calls := oci_calls w' @
                  [PatchZoneRecords_call ''cmp'' ''zone1'' (snd (hd pre)),
                   PatchZoneRecords_call ''cmp'' ''zone2'' (snd zo)]\<rparr>)"
proof -
  let ?P = "exOciProvider (Inr exZones) [''zone2''] (\<lambda>n. True) False"
  let ?CH = "\<lparr>Create = [exEndpoint ''www.one.example'' ''A'' [''10.0.0.1''],
                  exEndpoint ''www.two.example'' ''A'' [''10.0.0.2''],
                  exEndpoint ''www.three.example'' ''A'' [''10.0.0.3'']],
        UpdateOld = [], UpdateNew = [], Delete = []\<rparr>"
  let ?op1 = "\<lparr>Domain = ''www.one.example'', Rdata = ''10.0.0.1'', Ttl = 300, Rtype = ''A'',
               Operation = RecordOperationOperationAdd\<rparr>"
  let ?op2 = "\<lparr>Domain = ''www.two.example'', Rdata = ''10.0.0.2'', Ttl = 300, Rtype = ''A'',
               Operation = RecordOperationOperationAdd\<rparr>"
  let ?op3 = "\<lparr>Domain = ''www.three.example'', Rdata = ''10.0.0.3'', Ttl = 300, Rtype = ''A'',
               Operation = RecordOperationOperationAdd\<rparr>"
  let ?zones = "map (\<lambda>z. (zs_Id z, z)) exZones"
  let ?w' = "\<lparr>oci_calls = [ListZones_call ''cmp'' ''GLOBAL'' None,
                            ListZones_call ''cmp'' ''PRIVATE'' None],
             zoneCacheOf = \<lparr>cache_age = 0, cache_duration = 0, cache_zones = ?zones\<rparr>\<rparr>"
  have ops: "changeOperations exLibrary ?P ?CH = Inr [?op1, ?op2, ?op3]"
    by (simp add: oci_defs oci_ex_defs ex_defs)
  have zs: "OCI_zones exLibrary ?P exOciWorld = Some (Inr ?zones, ?w')"
    by (simp add: oci_defs oci_ex_defs ex_defs)
  have dry: "\<not> dryRun ?P"
    by (simp add: oci_ex_defs)
  have obz: "rangeChanges exLibrary (operationsByZone exLibrary ?zones [?op1, ?op2, ?op3])
      = [(''zone1'', [?op1])] @ (''zone2'', [?op2]) # [(''zone3'', [?op3])]"
    by code_simp
  have ok: "patchesSucceed ?P (oci_calls ?w') [(''zone1'', [?op1])]"
    by (simp add: patchesSucceed_def oci_ex_defs)
  have bad: "PatchZoneRecords (client ?P)
       (oci_calls ?w' @ map (patchCall ?P) [(''zone1'', [?op1])])
       (CompartmentID ?P) (fst (''zone2'', [?op2])) (snd (''zone2'', [?op2]))
       = Some ''patch of zone2 refused''"
    by (simp add: oci_ex_defs)
  from OCI_patch_failure_aborts [where L = exLibrary and p = ?P and changes = ?CH
      and w = exOciWorld and ops = "[?op1, ?op2, ?op3]" and zones = ?zones and w' = ?w'
      and pre = "[(''zone1'', [?op1])]" and zo = "(''zone2'', [?op2])"
      and post = "[(''zone3'', [?op3])]" and err = "''patch of zone2 refused''"]
    ops zs dry obz ok bad
  have ac: "OCI_ApplyChanges exLibrary ?P ?CH exOciWorld =
        Some (Return (Some ''patch of zone2 refused''),
              ?w'\<lparr>oci_calls := oci_calls ?w' @
                 map (patchCall ?P) ([(''zone1'', [?op1])] @ [(''zone2'', [?op2])])\<rparr>)"
    by blast
  have cmp: "CompartmentID ?P = ''cmp''"
    by (simp add: oci_ex_defs)
  show ?thesis
    apply (rule exI [of _ "[?op1, ?op2, ?op3]"])
    apply (rule exI [of _ ?zones])
    apply (rule exI [of _ ?w'])
    apply (rule exI [of _ "[(''zone1'', [?op1])]"])
    apply (rule exI [of _ "(''zone2'', [?op2])"])
    apply (rule exI [of _ "[(''zone3'', [?op3])]"])
    using ops zs dry obz ok bad ac cmp
    by (simp add: patchCall_def)
qed

end
